theory Spec2Isabelle
  imports Complex_Main "HOL-Library.Multiset"
begin

section \<open>Books API: a shallow embedding of \<open>index.js\<close>\<close>

text \<open>
  The service is an Express application over a MongoDB collection (through mongoose), with
  multer for the upload and express-validator for field checks. The route handlers of
  \<open>index.js\<close> are embedded as functions over an explicit world (collection, upload
  directory, trace of effects). The libraries are embedded by their documented behaviour on
  the inputs the handlers give them; each such definition says so.

  Conventions. A JavaScript string is a \<open>string\<close>, the bytes of its UTF-8 encoding, so
  \<open>length\<close> counts bytes and only ASCII letters have a case. A JavaScript number holding
  an integer is an \<open>int\<close> and \<open>NaN\<close> is \<open>None\<close>: JavaScript numbers are doubles, which
  hold every integer up to \<open>2 ^ 53\<close> in magnitude and round beyond, so the embedding is exact
  for the values that \<open>safe_integer\<close> admits.
  A query or body parameter is a \<open>string option\<close> (absent or one string); repeated and
  nested parameters are not modelled.
\<close>

subsection \<open>JavaScript strings and numbers\<close>

text \<open>The white space of ECMAScript within ASCII: TAB, LF, VT, FF, CR and SPACE.\<close>

definition is_space :: "char \<Rightarrow> bool" where
  "is_space c = (of_char c \<in> {9, 10, 11, 12, 13, 32 :: nat})"

text \<open>The white space of ECMAScript outside ASCII, in UTF-8: U+00A0 in two bytes; U+1680,
  U+2000 to U+200A, U+2028, U+2029, U+202F, U+205F, U+3000 and U+FEFF in three.\<close>

definition wide_space2 :: "string list" where
  "wide_space2 = [[CHR 0xC2, CHR 0xA0]]"

definition wide_space3 :: "string list" where
  "wide_space3 =
     [[CHR 0xE1, CHR 0x9A, CHR 0x80],
      [CHR 0xE2, CHR 0x80, CHR 0x80], [CHR 0xE2, CHR 0x80, CHR 0x81],
      [CHR 0xE2, CHR 0x80, CHR 0x82], [CHR 0xE2, CHR 0x80, CHR 0x83],
      [CHR 0xE2, CHR 0x80, CHR 0x84], [CHR 0xE2, CHR 0x80, CHR 0x85],
      [CHR 0xE2, CHR 0x80, CHR 0x86], [CHR 0xE2, CHR 0x80, CHR 0x87],
      [CHR 0xE2, CHR 0x80, CHR 0x88], [CHR 0xE2, CHR 0x80, CHR 0x89],
      [CHR 0xE2, CHR 0x80, CHR 0x8A],
      [CHR 0xE2, CHR 0x80, CHR 0xA8], [CHR 0xE2, CHR 0x80, CHR 0xA9],
      [CHR 0xE2, CHR 0x80, CHR 0xAF], [CHR 0xE2, CHR 0x81, CHR 0x9F],
      [CHR 0xE3, CHR 0x80, CHR 0x80], [CHR 0xEF, CHR 0xBB, CHR 0xBF]]"

text \<open>The string without its leading white space, as \<open>parseInt\<close> first takes it.\<close>

fun trimStart :: "string \<Rightarrow> string" where
  "trimStart (a # b # c # s) =
     (if is_space a then trimStart (b # c # s)
      else if [a, b] \<in> set wide_space2 then trimStart (c # s)
      else if [a, b, c] \<in> set wide_space3 then trimStart s
      else a # b # c # s)"
| "trimStart [a, b] =
     (if is_space a then trimStart [b]
      else if [a, b] \<in> set wide_space2 then []
      else [a, b])"
| "trimStart [a] = (if is_space a then [] else [a])"
| "trimStart [] = []"

text \<open>The integers that a JavaScript number holds exactly.\<close>

definition safe_integer :: "int \<Rightarrow> bool" where
  "safe_integer n = (\<bar>n\<bar> \<le> 2 ^ 53)"

text \<open>\<open>trim\<close> of validator and of mongoose, for values whose leading and trailing white
  space is ASCII.\<close>

definition trim :: "string \<Rightarrow> string" where
  "trim s = rev (dropWhile is_space (rev (dropWhile is_space s)))"

fun startsWith :: "string \<Rightarrow> string \<Rightarrow> bool" where
  "startsWith s [] = True"
| "startsWith [] (p # ps) = False"
| "startsWith (c # cs) (p # ps) = (c = p \<and> startsWith cs ps)"

text \<open>The value of a digit or letter in radices up to 36, as \<open>parseInt\<close> reads it.\<close>

definition digit_val :: "char \<Rightarrow> nat option" where
  "digit_val c =
     (let n = (of_char c :: nat) in
      if 48 \<le> n \<and> n \<le> 57 then Some (n - 48)
      else if 97 \<le> n \<and> n \<le> 122 then Some (n - 87)
      else if 65 \<le> n \<and> n \<le> 90 then Some (n - 55)
      else None)"

text \<open>Reads the longest prefix of digits of radix \<open>r\<close>; \<open>acc\<close> is the value read so far
  and \<open>seen\<close> tells whether any digit was read.\<close>

fun parse_digits :: "nat \<Rightarrow> nat \<Rightarrow> bool \<Rightarrow> string \<Rightarrow> nat option" where
  "parse_digits r acc seen [] = (if seen then Some acc else None)"
| "parse_digits r acc seen (c # cs) =
     (case digit_val c of
        None \<Rightarrow> (if seen then Some acc else None)
      | Some d \<Rightarrow>
          if d < r then parse_digits r (acc * r + d) True cs
          else (if seen then Some acc else None))"

text \<open>
  \<open>parseInt(string)\<close> with no radix (ECMAScript 19.2.5): skip leading white space, read an
  optional sign, read an optional \<open>0x\<close>/\<open>0X\<close> (then the radix is 16, otherwise 10), read
  the longest prefix of digits; \<open>NaN\<close> when there is none. The result is the integer that
  the digits denote; JavaScript rounds it to a double when it is not a \<open>safe_integer\<close>.
\<close>

definition parseInt_string :: "string \<Rightarrow> int option" where
  "parseInt_string s =
     (let s1 = trimStart s;
          neg = (s1 \<noteq> [] \<and> hd s1 = CHR ''-'');
          s2 = (if s1 \<noteq> [] \<and> (hd s1 = CHR ''-'' \<or> hd s1 = CHR ''+'') then tl s1 else s1);
          hex = (startsWith s2 ''0x'' \<or> startsWith s2 ''0X'');
          s3 = (if hex then drop 2 s2 else s2)
      in case parse_digits (if hex then 16 else 10) 0 False s3 of
           None \<Rightarrow> None
         | Some n \<Rightarrow> Some (if neg then - int n else int n))"

text \<open>An absent parameter is \<open>undefined\<close>, which \<open>parseInt\<close> first turns into the string
  \<open>"undefined"\<close>.\<close>

definition parseInt :: "string option \<Rightarrow> int option" where
  "parseInt v = parseInt_string (case v of None \<Rightarrow> ''undefined'' | Some s \<Rightarrow> s)"

text \<open>The parameter does not parse, or parses to an integer that a JavaScript number
  holds exactly.\<close>

definition safe_parse :: "string option \<Rightarrow> bool" where
  "safe_parse v = (case parseInt v of None \<Rightarrow> True | Some n \<Rightarrow> safe_integer n)"

text \<open>\<open>parseInt(v) || d\<close>: \<open>NaN\<close> and \<open>0\<close> are falsy.\<close>

definition parseInt_or :: "string option \<Rightarrow> int \<Rightarrow> int" where
  "parseInt_or v d = (case parseInt v of None \<Rightarrow> d | Some n \<Rightarrow> if n = 0 then d else n)"

text \<open>\<open>v || d\<close> on a string parameter: \<open>undefined\<close> and the empty string are falsy.\<close>

definition string_or :: "string option \<Rightarrow> string \<Rightarrow> string" where
  "string_or v d = (case v of None \<Rightarrow> d | Some s \<Rightarrow> if s = [] then d else s)"

text \<open>\<open>Math.ceil(a / b)\<close> for integers \<open>a\<close> and \<open>b \<noteq> 0\<close>.\<close>

definition ceil_div :: "int \<Rightarrow> int \<Rightarrow> int" where
  "ceil_div a b = - ((- a) div b)"

subsection \<open>The Book document\<close>

text \<open>\<open>bookSchema\<close> with \<open>timestamps: true\<close>; dates are milliseconds since the epoch.\<close>

record book =
  book_id :: string
  title :: string
  author :: string
  description :: string
  image :: "string option"
  createdAt :: int
  updatedAt :: int

subsection \<open>The query that the list handler builds\<close>

text \<open>A field condition \<open>{ $regex: pattern, $options: options }\<close> and a filter: the empty
  filter \<open>{}\<close> or \<open>{ $or: [ { field: condition }, ... ] }\<close>.\<close>

datatype condition = Regex string string

datatype mquery = MatchAll | Or "(string \<times> condition) list"

text \<open>Lines 245 to 254: a non-empty search string is handed to \<open>$regex\<close> as it is.\<close>

definition searchQuery :: "string \<Rightarrow> mquery" where
  "searchQuery search =
     (if search \<noteq> [] then
        Or [(''title'', Regex search ''i''),
            (''author'', Regex search ''i''),
            (''description'', Regex search ''i'')]
      else MatchAll)"

subsection \<open>The document store\<close>

text \<open>
  MongoDB is not part of the repository. The store is embedded by its documented behaviour:
  a collection is a list of documents, a filter selects, \<open>sort\<close> orders by the BSON
  comparison of one field, \<open>skip\<close> and \<open>limit\<close> cut the result.

  Regular expressions are embedded for a fragment only: a pattern in which every character
  is an ordinary character, matching itself, or the dot, matching any character but a line
  feed; with the option \<open>i\<close> ASCII letters match in either case. The pattern is searched
  anywhere in the subject, as an unanchored pattern is. A pattern holding any other
  special character of the syntax is outside the fragment, and a query with such a
  pattern has the outcome \<open>Unmodelled\<close>.
\<close>

datatype pat_item = Lit char | AnyChar

definition regex_special :: "char \<Rightarrow> bool" where
  "regex_special c = (c = CHR 0x5C \<or> c \<in> set ''^$.[]|()?*+{}'')"

definition compile_item :: "char \<Rightarrow> pat_item option" where
  "compile_item c =
     (if c = CHR ''.'' then Some AnyChar
      else if regex_special c then None
      else Some (Lit c))"

fun compile :: "string \<Rightarrow> pat_item list option" where
  "compile [] = Some []"
| "compile (c # cs) =
     (case compile_item c of
        None \<Rightarrow> None
      | Some i \<Rightarrow> (case compile cs of None \<Rightarrow> None | Some is \<Rightarrow> Some (i # is)))"

definition to_lower :: "char \<Rightarrow> char" where
  "to_lower c =
     (case map_of (zip ''ABCDEFGHIJKLMNOPQRSTUVWXYZ'' ''abcdefghijklmnopqrstuvwxyz'') c of
        None \<Rightarrow> c
      | Some l \<Rightarrow> l)"

fun item_match :: "pat_item \<Rightarrow> char \<Rightarrow> bool" where
  "item_match (Lit a) c = (to_lower a = to_lower c)"
| "item_match AnyChar c = (c \<noteq> CHR 0x0A)"

text \<open>The pattern matches at the start of the subject.\<close>

fun match_here :: "pat_item list \<Rightarrow> string \<Rightarrow> bool" where
  "match_here [] s = True"
| "match_here (p # ps) [] = False"
| "match_here (p # ps) (c # cs) = (item_match p c \<and> match_here ps cs)"

text \<open>The pattern matches somewhere in the subject.\<close>

fun regex_search :: "pat_item list \<Rightarrow> string \<Rightarrow> bool" where
  "regex_search ps [] = match_here ps []"
| "regex_search ps (c # cs) = (match_here ps (c # cs) \<or> regex_search ps cs)"

text \<open>The string fields of a document; a regular expression matches string values only.\<close>

definition string_field :: "string \<Rightarrow> book \<Rightarrow> string option" where
  "string_field f b =
     (if f = ''title'' then Some (title b)
      else if f = ''author'' then Some (author b)
      else if f = ''description'' then Some (description b)
      else if f = ''image'' then image b
      else None)"

fun supported_condition :: "condition \<Rightarrow> bool" where
  "supported_condition (Regex pat opts) = (opts = ''i'' \<and> compile pat \<noteq> None)"

fun holds :: "string \<times> condition \<Rightarrow> book \<Rightarrow> bool" where
  "holds (f, Regex pat opts) b =
     (case (compile pat, string_field f b) of
        (Some ps, Some s) \<Rightarrow> regex_search ps s
      | _ \<Rightarrow> False)"

fun supported :: "mquery \<Rightarrow> bool" where
  "supported MatchAll = True"
| "supported (Or cs) = list_all (\<lambda>(f, c). supported_condition c) cs"

fun matches :: "mquery \<Rightarrow> book \<Rightarrow> bool" where
  "matches MatchAll b = True"
| "matches (Or cs) b = list_ex (\<lambda>fc. holds fc b) cs"

text \<open>The values a sort key can take, in the BSON comparison order of their types: a
  missing field (null), a number, a string, an ObjectId, a date.\<close>

datatype bson = BNull | BNumber int | BString string | BObjectId string | BDate int

definition field_value :: "string \<Rightarrow> book \<Rightarrow> bson" where
  "field_value f b =
     (if f = ''_id'' then BObjectId (book_id b)
      else if f = ''title'' then BString (title b)
      else if f = ''author'' then BString (author b)
      else if f = ''description'' then BString (description b)
      else if f = ''image'' then (case image b of None \<Rightarrow> BNull | Some s \<Rightarrow> BString s)
      else if f = ''createdAt'' then BDate (createdAt b)
      else if f = ''updatedAt'' then BDate (updatedAt b)
      else if f = ''__v'' then BNumber 0
      else BNull)"

text \<open>Strings compare byte by byte (no collation).\<close>

fun str_le :: "string \<Rightarrow> string \<Rightarrow> bool" where
  "str_le [] ys = True"
| "str_le (x # xs) [] = False"
| "str_le (x # xs) (y # ys) =
     (if (of_char x :: nat) < of_char y then True
      else if (of_char y :: nat) < of_char x then False
      else str_le xs ys)"

fun bson_rank :: "bson \<Rightarrow> nat" where
  "bson_rank BNull = 0"
| "bson_rank (BNumber n) = 1"
| "bson_rank (BString s) = 2"
| "bson_rank (BObjectId s) = 3"
| "bson_rank (BDate d) = 4"

fun bson_le :: "bson \<Rightarrow> bson \<Rightarrow> bool" where
  "bson_le (BNumber m) (BNumber n) = (m \<le> n)"
| "bson_le (BString s) (BString t) = str_le s t"
| "bson_le (BObjectId s) (BObjectId t) = str_le s t"
| "bson_le (BDate d) (BDate e) = (d \<le> e)"
| "bson_le a b = (bson_rank a \<le> bson_rank b)"

text \<open>The order that a sort specification \<open>{ field: direction }\<close> asks for; the direction
  is \<open>1\<close> (ascending) or \<open>-1\<close> (descending).\<close>

definition doc_le :: "string \<times> int \<Rightarrow> book \<Rightarrow> book \<Rightarrow> bool" where
  "doc_le spec a b =
     (case spec of (f, dir) \<Rightarrow>
        if dir = 1 then bson_le (field_value f a) (field_value f b)
        else bson_le (field_value f b) (field_value f a))"

text \<open>Sorting is by insertion. The store leaves the order of documents with equal keys
  open; here they keep the order of the collection.\<close>

fun insert_by :: "('a \<Rightarrow> 'a \<Rightarrow> bool) \<Rightarrow> 'a \<Rightarrow> 'a list \<Rightarrow> 'a list" where
  "insert_by le x [] = [x]"
| "insert_by le x (y # ys) = (if le x y then x # y # ys else y # insert_by le x ys)"

definition sort_by :: "('a \<Rightarrow> 'a \<Rightarrow> bool) \<Rightarrow> 'a list \<Rightarrow> 'a list" where
  "sort_by le xs = foldr (insert_by le) xs []"

text \<open>What a handler does to the world outside it, in the order it does it. A call of the
  store is recorded with its arguments: the filter of \<open>countDocuments\<close>; the filter, the
  sort specification, the skip and the limit of \<open>find\<close>; the identifier of \<open>findById\<close>.
  \<open>FileUnlink\<close> is the call of \<open>fs.unlink\<close>, \<open>ConsoleError\<close> a line on the console.\<close>

datatype event =
    DbCount mquery
  | DbFind mquery "string \<times> int" int int
  | DbFindById string
  | DbInsert
  | FileWrite string
  | FileUnlink string
  | ConsoleError string

text \<open>The collection, whether the database answers, the files of the upload directory,
  the files that cannot be removed, the removals that were asked for and have not run yet,
  and the effects so far.\<close>

record world =
  docs :: "book list"
  dbOnline :: bool
  files :: "string list"
  locked :: "string list"
  pending :: "string list"
  trace :: "event list"

datatype 'a outcome = Returns 'a | Throws string | Unmodelled

definition emit :: "event \<Rightarrow> world \<Rightarrow> world" where
  "emit e w = w\<lparr>trace := trace w @ [e]\<rparr>"

text \<open>\<open>Book.countDocuments(filter)\<close>.\<close>

definition countDocuments :: "mquery \<Rightarrow> world \<Rightarrow> nat outcome \<times> world" where
  "countDocuments q w =
     (let w' = emit (DbCount q) w in
      if \<not> supported q then (Unmodelled, w')
      else if \<not> dbOnline w then (Throws ''database unavailable'', w')
      else (Returns (length (filter (matches q) (docs w))), w'))"

text \<open>\<open>Book.find(filter).sort(spec).skip(skip).limit(limit)\<close>. The server refuses a negative
  skip; a negative limit asks for as many documents as its absolute value, in a single
  batch, and a limit of \<open>0\<close> is no limit.\<close>

definition find_docs ::
  "mquery \<Rightarrow> string \<times> int \<Rightarrow> int \<Rightarrow> int \<Rightarrow> world \<Rightarrow> book list outcome \<times> world" where
  "find_docs q spec skip lmt w =
     (let w' = emit (DbFind q spec skip lmt) w in
      if \<not> supported q then (Unmodelled, w')
      else if \<not> dbOnline w then (Throws ''database unavailable'', w')
      else if skip < 0 then (Throws ''Skip value must be non-negative'', w')
      else
        let sorted_docs = sort_by (doc_le spec) (filter (matches q) (docs w));
            skipped = drop (nat skip) sorted_docs
        in (Returns (if lmt = 0 then skipped else take (nat \<bar>lmt\<bar>) skipped), w'))"

subsection \<open>Responses\<close>

text \<open>A validation error: the field and the message.\<close>

type_synonym field_error = "string \<times> string"

text \<open>The \<open>pagination\<close> object of the list response; \<open>perPage\<close> is its key \<open>limit\<close>.\<close>

record pagination =
  currentPage :: int
  totalPages :: int
  totalBooks :: int
  hasNextPage :: bool
  hasPrevPage :: bool
  perPage :: int

text \<open>One constructor for each response that \<open>index.js\<close> sends.\<close>

datatype response =
    BookAdded book
  | ValidationFailed "field_error list"
  | ValidationError "field_error list"
  | InternalServerError string
  | BookNotFound
  | BookData book
  | BookList "book list" pagination
  | FileTooLarge
  | SomethingWentWrong string

fun status :: "response \<Rightarrow> nat" where
  "status (BookAdded b) = 201"
| "status (ValidationFailed es) = 400"
| "status (ValidationError es) = 400"
| "status (InternalServerError m) = 500"
| "status BookNotFound = 404"
| "status (BookData b) = 200"
| "status (BookList bs p) = 200"
| "status FileTooLarge = 400"
| "status (SomethingWentWrong m) = 500"

subsection \<open>GET /api/books\<close>

record list_query =
  q_page :: "string option"
  q_limit :: "string option"
  q_search :: "string option"
  q_sortBy :: "string option"
  q_sortOrder :: "string option"

text \<open>Lines 238 to 242: the constants \<open>page\<close>, \<open>limit\<close>, \<open>search\<close>, \<open>sortBy\<close> and
  \<open>sortOrder\<close>.\<close>

record list_params =
  page :: int
  limit :: int
  search :: string
  sortBy :: string
  sortOrder :: int

definition listParams :: "list_query \<Rightarrow> list_params" where
  "listParams q =
     \<lparr> page = parseInt_or (q_page q) 1,
       limit = parseInt_or (q_limit q) 10,
       search = string_or (q_search q) [],
       sortBy = string_or (q_sortBy q) ''createdAt'',
       sortOrder = (if q_sortOrder q = Some ''asc'' then 1 else - 1) \<rparr>"

text \<open>Line 257.\<close>

definition skip_of :: "list_params \<Rightarrow> int" where
  "skip_of p = (page p - 1) * limit p"

text \<open>Lines 244 to 287. \<open>None\<close> is a request whose search pattern is outside the embedded
  fragment of regular expressions.\<close>

definition listWith :: "list_params \<Rightarrow> world \<Rightarrow> response option \<times> world" where
  "listWith p w =
     (let searchQ = searchQuery (search p);
          skip = skip_of p
      in case countDocuments searchQ w of
           (Unmodelled, w1) \<Rightarrow> (None, w1)
         | (Throws msg, w1) \<Rightarrow> (Some (InternalServerError msg), w1)
         | (Returns totalCount, w1) \<Rightarrow>
             let pages = ceil_div (int totalCount) (limit p) in
             (case find_docs searchQ (sortBy p, sortOrder p) skip (limit p) w1 of
                (Unmodelled, w2) \<Rightarrow> (None, w2)
              | (Throws msg, w2) \<Rightarrow> (Some (InternalServerError msg), w2)
              | (Returns books, w2) \<Rightarrow>
                  (Some (BookList books
                     \<lparr> currentPage = page p,
                       totalPages = pages,
                       totalBooks = int totalCount,
                       hasNextPage = (page p < pages),
                       hasPrevPage = (page p > 1),
                       perPage = limit p \<rparr>), w2)))"

definition listBooks :: "list_query \<Rightarrow> world \<Rightarrow> response option \<times> world" where
  "listBooks q w = listWith (listParams q) w"

subsection \<open>Validation results and the file of a request\<close>

text \<open>\<open>req.file\<close> once multer has stored the upload.\<close>

record stored_file =
  path :: string
  filename :: string

text \<open>
  \<open>fs.unlink(path, callback)\<close> is asynchronous: the call only asks for the removal, and the
  handler goes on and answers in the same turn of the event loop. The removal runs, and
  the callback with it, after the handler has returned.
\<close>

definition unlink :: "string \<Rightarrow> world \<Rightarrow> world" where
  "unlink p w = (emit (FileUnlink p) w)\<lparr>pending := pending w @ [p]\<rparr>"

text \<open>
  One removal that was asked for, when it runs: the file goes, or the removal fails and the
  callback of lines 132 to 134 and 180 to 182 writes the failure to the console and does
  nothing else.
\<close>

definition run_unlink :: "string \<Rightarrow> world \<Rightarrow> world" where
  "run_unlink p w =
     (if p \<in> set (files w) \<and> p \<notin> set (locked w)
      then w\<lparr>files := removeAll p (files w)\<rparr>
      else emit (ConsoleError ''Error deleting file:'') w)"


text \<open>Lines 127 to 144. \<open>None\<close> is \<open>next()\<close>: the request goes on to the handler.\<close>

definition handleValidationErrors ::
  "field_error list \<Rightarrow> stored_file option \<Rightarrow> world \<Rightarrow> response option \<times> world" where
  "handleValidationErrors errors file w =
     (if errors \<noteq> [] then
        (Some (ValidationFailed errors),
         (case file of None \<Rightarrow> w | Some f \<Rightarrow> unlink (path f) w))
      else (None, w))"

subsection \<open>GET /api/books/:id\<close>

definition is_hex :: "char \<Rightarrow> bool" where
  "is_hex c = (case digit_val c of None \<Rightarrow> False | Some d \<Rightarrow> d < 16)"

text \<open>\<open>isHexadecimal\<close> of validator, the expression \<open>/^(0x|0h)?[0-9A-F]+$/i\<close>: an optional
  prefix \<open>0x\<close> or \<open>0h\<close>, in either case, and then one hexadecimal digit or more.\<close>

definition isHexadecimal :: "string \<Rightarrow> bool" where
  "isHexadecimal s =
     (let digits = (if map to_lower (take 2 s) \<in> {''0x'', ''0h''} then drop 2 s else s)
      in digits \<noteq> [] \<and> list_all is_hex digits)"

text \<open>\<open>isMongoId\<close> of validator, which express-validator calls: \<open>isHexadecimal(str) &&
  str.length === 24\<close>. The prefix counts among the 24 characters.\<close>

definition isMongoId :: "string \<Rightarrow> bool" where
  "isMongoId s = (isHexadecimal s \<and> length s = 24)"

text \<open>Lines 122 to 124.\<close>

definition getBookValidation :: "string \<Rightarrow> field_error list" where
  "getBookValidation ident = (if isMongoId ident then [] else [(''id'', ''Invalid book ID format'')])"

text \<open>The cast of a string of 24 characters to an ObjectId by mongoose: 24 hexadecimal
  digits are an ObjectId, whose text form is in lower case; anything else is a
  \<open>CastError\<close>, here \<open>None\<close>. The route hands over strings of 24 characters only.\<close>

definition castObjectId :: "string \<Rightarrow> string option" where
  "castObjectId s = (if length s = 24 \<and> list_all is_hex s then Some (map to_lower s) else None)"

text \<open>The message of the \<open>CastError\<close>.\<close>

definition cast_error :: "string \<Rightarrow> string" where
  "cast_error s =
     ''Cast to ObjectId failed for value '' @ [CHR 0x22] @ s @ [CHR 0x22]
     @ '' (type string) at path '' @ [CHR 0x22] @ ''_id'' @ [CHR 0x22]
     @ '' for model '' @ [CHR 0x22] @ ''Book'' @ [CHR 0x22]"

text \<open>\<open>Book.findById(id)\<close>: the identifier is cast first, and a cast that fails is thrown
  before the store is asked; stored identifiers are in lower case. \<open>Inl\<close> is a thrown
  error.\<close>

definition findById :: "string \<Rightarrow> world \<Rightarrow> (string + book option) \<times> world" where
  "findById ident w =
     (case castObjectId ident of
        None \<Rightarrow> (Inl (cast_error ident), w)
      | Some oid \<Rightarrow>
          let w' = emit (DbFindById ident) w in
          if \<not> dbOnline w then (Inl ''database unavailable'', w')
          else (Inr (find (\<lambda>b. book_id b = oid) (docs w)), w'))"

text \<open>Lines 206 to 233.\<close>

definition getBook :: "string \<Rightarrow> world \<Rightarrow> response \<times> world" where
  "getBook ident w =
     (case handleValidationErrors (getBookValidation ident) None w of
        (Some r, w1) \<Rightarrow> (r, w1)
      | (None, w1) \<Rightarrow>
          (case findById ident w1 of
             (Inl msg, w2) \<Rightarrow> (InternalServerError msg, w2)
           | (Inr None, w2) \<Rightarrow> (BookNotFound, w2)
           | (Inr (Some b), w2) \<Rightarrow> (BookData b, w2)))"

subsection \<open>POST /api/books\<close>

text \<open>The file part of the multipart request, as multer sees it: the name of the form
  field, the declared content type, the number of bytes, and \<open>ext\<close>, which is
  \<open>path.extname(file.originalname)\<close>.\<close>

record upload =
  fieldname :: string
  mimetype :: string
  size_bytes :: nat
  ext :: string

record create_request =
  req_title :: "string option"
  req_author :: "string option"
  req_description :: "string option"
  req_file :: "upload option"

text \<open>What the handler reads from outside the request: \<open>uniqueSuffix\<close> is
  \<open>Date.now() + "-" + Math.round(Math.random() * 1e9)\<close>, \<open>new_id\<close> the ObjectId that the
  driver generates, \<open>now\<close> the clock. \<open>refuses_at_limit\<close> tells how the installed multer
  treats a file of exactly \<open>fileSize\<close> bytes: the versions from 1.4.5-lts.1 to 2.2.0 refuse
  it, version 2.4.0 stores it. The repository does not say which one is installed.\<close>

record env =
  uniqueSuffix :: string
  new_id :: string
  now :: int
  refuses_at_limit :: bool

datatype upload_error = MulterError string | PlainError string

text \<open>Lines 35 to 42: \<open>Inr True\<close> is \<open>cb(null, true)\<close>.\<close>

definition fileFilter :: "upload \<Rightarrow> upload_error + bool" where
  "fileFilter file =
     (if startsWith (mimetype file) ''image/'' then Inr True
      else Inl (PlainError ''Only image files are allowed!''))"

text \<open>Line 48.\<close>

definition fileSize :: nat where
  "fileSize = 5 * 1024 * 1024"

text \<open>Lines 29 to 32 and 27: the name and the place of the stored file.\<close>

definition storage_filename :: "env \<Rightarrow> upload \<Rightarrow> string" where
  "storage_filename e file = ''book-'' @ uniqueSuffix e @ ext file"

definition storage_path :: "env \<Rightarrow> upload \<Rightarrow> string" where
  "storage_path e file = ''uploads/'' @ storage_filename e file"

text \<open>
  \<open>upload.single("image")\<close> with the options of lines 44 to 50, by the documented behaviour
  of multer: a file in another field is refused (\<open>LIMIT_UNEXPECTED_FILE\<close>); then the filter
  decides, before the storage engine sees the file (a file that the filter declines
  without an error is skipped); then the disk storage writes the file under its new name,
  and a file longer than \<open>fileSize\<close> bytes (or of exactly that many, with a multer that
  \<open>refuses_at_limit\<close>) is cut off, removed again and refused (\<open>LIMIT_FILE_SIZE\<close>); multer
  waits for that removal before it passes the error on. \<open>Inl\<close> is the error passed to
  \<open>next\<close>.
\<close>

definition upload_single ::
  "env \<Rightarrow> upload option \<Rightarrow> world \<Rightarrow> (upload_error + stored_file option) \<times> world" where
  "upload_single e file w =
     (case file of
        None \<Rightarrow> (Inr None, w)
      | Some f \<Rightarrow>
          if fieldname f \<noteq> ''image'' then (Inl (MulterError ''LIMIT_UNEXPECTED_FILE''), w)
          else (case fileFilter f of
             Inl err \<Rightarrow> (Inl err, w)
           | Inr accept \<Rightarrow>
               if \<not> accept then (Inr None, w)
               else
                 let p = storage_path e f; w1 = emit (FileWrite p) w in
                 if size_bytes f > fileSize \<or> (refuses_at_limit e \<and> size_bytes f = fileSize)
                 then (Inl (MulterError ''LIMIT_FILE_SIZE''), emit (FileUnlink p) w1)
                 else (Inr (Some \<lparr> path = p, filename = storage_filename e f \<rparr>),
                       w1\<lparr>files := files w @ [p]\<rparr>)))"

text \<open>The message of a multer error.\<close>

definition multer_message :: "string \<Rightarrow> string" where
  "multer_message code =
     (if code = ''LIMIT_FILE_SIZE'' then ''File too large''
      else if code = ''LIMIT_UNEXPECTED_FILE'' then ''Unexpected field''
      else code)"

text \<open>Lines 307 to 323, the global error handler.\<close>

fun globalErrorHandler :: "upload_error \<Rightarrow> response" where
  "globalErrorHandler (MulterError code) =
     (if code = ''LIMIT_FILE_SIZE'' then FileTooLarge
      else SomethingWentWrong (multer_message code))"
| "globalErrorHandler (PlainError msg) = SomethingWentWrong msg"

text \<open>
  One chain of lines 99 to 120, \<open>body(f).notEmpty().withMessage(m1).isLength({min, max})
  .withMessage(m2).trim()\<close>. express-validator runs a chain in the order it is written:
  both validators see the value as it was sent (an absent field counts as the empty
  string), each failure adds an error, and the sanitizer \<open>trim\<close> comes last. The result is
  the errors and the sanitized value.
\<close>

definition check_field ::
  "string \<Rightarrow> string \<Rightarrow> nat \<Rightarrow> nat \<Rightarrow> string \<Rightarrow> string option \<Rightarrow> field_error list \<times> string" where
  "check_field f m1 lo hi m2 v =
     (let s = (case v of None \<Rightarrow> [] | Some x \<Rightarrow> x) in
      ((if s \<noteq> [] then [] else [(f, m1)])
       @ (if lo \<le> length s \<and> length s \<le> hi then [] else [(f, m2)]),
       trim s))"

text \<open>The fields of \<open>req.body\<close> after validation.\<close>

record book_fields =
  f_title :: string
  f_author :: string
  f_description :: string

definition addBookValidation :: "create_request \<Rightarrow> field_error list \<times> book_fields" where
  "addBookValidation r =
     (let (e1, t) = check_field ''title'' ''Title is required'' 1 200
                      ''Title must be between 1 and 200 characters'' (req_title r);
          (e2, a) = check_field ''author'' ''Author is required'' 1 100
                      ''Author must be between 1 and 100 characters'' (req_author r);
          (e3, d) = check_field ''description'' ''Description is required'' 10 1000
                      ''Description must be between 10 and 1000 characters'' (req_description r)
      in (e1 @ e2 @ e3, \<lparr> f_title = t, f_author = a, f_description = d \<rparr>))"

text \<open>
  One string path of \<open>bookSchema\<close>, lines 62 to 88, \<open>{ type: String, required: true,
  trim: true, maxlength: n }\<close>, by the documented behaviour of mongoose: the setter trims,
  \<open>required\<close> refuses the empty string, \<open>maxlength\<close> refuses a longer one.
\<close>

definition schema_path :: "string \<Rightarrow> nat \<Rightarrow> string \<Rightarrow> field_error list \<times> string" where
  "schema_path f hi v =
     (let s = trim v in
      ((if s = [] then [(f, ''Path `'' @ f @ ''` is required.'')]
        else if hi < length s then [(f, ''Path `'' @ f @ ''` is longer than the maximum allowed length.'')]
        else []),
       s))"

datatype save_error = SchemaInvalid "field_error list" | DbError string

text \<open>
  \<open>new Book(bookData)\<close> and \<open>book.save()\<close>: the document is validated against the schema
  first; a valid document gets its identifier and timestamps (lines 87 and 91 to 94) and is
  inserted. \<open>Inl\<close> is the rejection of the promise.
\<close>

definition save :: "env \<Rightarrow> book_fields \<Rightarrow> string option \<Rightarrow> world \<Rightarrow> (save_error + book) \<times> world" where
  "save e bookData img w =
     (let (e1, t) = schema_path ''title'' 200 (f_title bookData);
          (e2, a) = schema_path ''author'' 100 (f_author bookData);
          (e3, d) = schema_path ''description'' 1000 (f_description bookData)
      in if e1 @ e2 @ e3 \<noteq> [] then (Inl (SchemaInvalid (e1 @ e2 @ e3)), w)
         else
           let w1 = emit DbInsert w;
               b = \<lparr> book_id = new_id e, title = t, author = a, description = d, image = img,
                     createdAt = now e, updatedAt = now e \<rparr>
           in if \<not> dbOnline w then (Inl (DbError ''database unavailable''), w1)
              else (Inr b, w1\<lparr>docs := docs w @ [b]\<rparr>))"

text \<open>Lines 154 to 202, the handler proper.\<close>

definition addBook :: "env \<Rightarrow> book_fields \<Rightarrow> stored_file option \<Rightarrow> world \<Rightarrow> response \<times> world" where
  "addBook e body file w =
     (let img = (case file of None \<Rightarrow> None | Some f \<Rightarrow> Some (''/uploads/'' @ filename f)) in
      case save e body img w of
        (Inr savedBook, w1) \<Rightarrow> (BookAdded savedBook, w1)
      | (Inl err, w1) \<Rightarrow>
          let w2 = (case file of None \<Rightarrow> w1 | Some f \<Rightarrow> unlink (path f) w1) in
          (case err of
             SchemaInvalid errors \<Rightarrow> (ValidationError errors, w2)
           | DbError msg \<Rightarrow> (InternalServerError msg, w2)))"

text \<open>Lines 149 to 203: the middlewares of the route, in order.\<close>

definition createBook :: "env \<Rightarrow> create_request \<Rightarrow> world \<Rightarrow> response \<times> world" where
  "createBook e r w =
     (case upload_single e (req_file r) w of
        (Inl err, w1) \<Rightarrow> (globalErrorHandler err, w1)
      | (Inr file, w1) \<Rightarrow>
          let (errors, body) = addBookValidation r in
          (case handleValidationErrors errors file w1 of
             (Some resp, w2) \<Rightarrow> (resp, w2)
           | (None, w2) \<Rightarrow> addBook e body file w2))"

subsection \<open>The specification's words\<close>

text \<open>
  The specification speaks of a search term that occurs, case-insensitively, as a literal
  substring of a field. \<open>occurs_ci\<close> and \<open>literal_match\<close> say that, independently of
  the regular expressions of the store; \<open>plain_text\<close> is a term with no character that
  the pattern syntax treats specially.
\<close>

definition occurs_ci :: "string \<Rightarrow> string \<Rightarrow> bool" where
  "occurs_ci t s = (\<exists>u v. map to_lower s = u @ map to_lower t @ v)"

definition literal_match :: "string \<Rightarrow> book \<Rightarrow> bool" where
  "literal_match t b =
     (occurs_ci t (title b) \<or> occurs_ci t (author b) \<or> occurs_ci t (description b))"

definition plain_text :: "string \<Rightarrow> bool" where
  "plain_text t = list_all (\<lambda>c. \<not> regex_special c) t"

subsection \<open>Example data\<close>

definition gatsby :: book where
  "gatsby =
     \<lparr> book_id = ''64f5a1b2c3d4e5f6a7b8c9d0'', title = ''The Great Gatsby'',
       author = ''F. Scott Fitzgerald'',
       description = ''A classic American novel about the Jazz Age'',
       image = None, createdAt = 2000, updatedAt = 2000 \<rparr>"

definition ulysses :: book where
  "ulysses =
     \<lparr> book_id = ''64f5a1b2c3d4e5f6a7b8c9d1'', title = ''Ulysses'',
       author = ''James Joyce'',
       description = ''One day in Dublin, told in eighteen episodes'',
       image = None, createdAt = 1000, updatedAt = 1000 \<rparr>"

text \<open>A collection of two books, the older one first.\<close>

definition shelf :: world where
  "shelf =
     \<lparr> docs = [ulysses, gatsby], dbOnline = True, files = [], locked = [], pending = [],
       trace = [] \<rparr>"

definition hex2 :: "nat \<Rightarrow> string" where
  "hex2 n = [''0123456789abcdef'' ! (n div 16 mod 16), ''0123456789abcdef'' ! (n mod 16)]"

definition numbered_book :: "nat \<Rightarrow> book" where
  "numbered_book n =
     \<lparr> book_id = ''64f5a1b2c3d4e5f6a7b8c9'' @ hex2 n, title = ''Volume '' @ hex2 n,
       author = ''Anonymous'', description = ''One volume of a long series'',
       image = None, createdAt = int n, updatedAt = int n \<rparr>"

text \<open>A collection of 47 books.\<close>

definition library47 :: world where
  "library47 =
     \<lparr> docs = map numbered_book [0..<47], dbOnline = True, files = [], locked = [],
       pending = [], trace = [] \<rparr>"

text \<open>\<open>GET /api/books\<close> with no parameter, and some requests with parameters.\<close>

definition no_query :: list_query where
  "no_query =
     \<lparr> q_page = None, q_limit = None, q_search = None, q_sortBy = None, q_sortOrder = None \<rparr>"

definition page5_of_10 :: list_query where
  "page5_of_10 = no_query\<lparr> q_page := Some ''5'', q_limit := Some ''10'' \<rparr>"

definition limit_minus5 :: list_query where
  "limit_minus5 = no_query\<lparr> q_limit := Some ''-5'' \<rparr>"

definition page_minus3_limit_1000 :: list_query where
  "page_minus3_limit_1000 = no_query\<lparr> q_page := Some ''-3'', q_limit := Some ''1000'' \<rparr>"

definition limit_zero :: list_query where
  "limit_zero = no_query\<lparr> q_limit := Some ''0'' \<rparr>"

definition by_description :: list_query where
  "by_description = no_query\<lparr> q_sortBy := Some ''description'' \<rparr>"

definition search_for :: "string \<Rightarrow> list_query" where
  "search_for s = no_query\<lparr> q_search := Some s \<rparr>"

text \<open>Identifiers: the one of \<open>gatsby\<close>, an ObjectId that no book has, and a string that
  is no identifier at all.\<close>

definition gatsby_id :: string where
  "gatsby_id = ''64f5a1b2c3d4e5f6a7b8c9d0''"

definition unknown_id :: string where
  "unknown_id = ''64f5a1b2c3d4e5f6a7b8c9df''"

definition malformed_id :: string where
  "malformed_id = ''not-an-id''"

text \<open>A string of 24 characters that is not an ObjectId: the prefix \<open>0x\<close> and 22
  hexadecimal digits.\<close>

definition prefixed_id :: string where
  "prefixed_id = ''0x4f5a1b2c3d4e5f6a7b8c9d''"

text \<open>The surroundings of a create request, and some create requests.\<close>

definition clock :: env where
  "clock =
     \<lparr> uniqueSuffix = ''1700000000000-123456789'', new_id = ''64f5a1b2c3d4e5f6a7b8c9d5'',
       now = 1700000000000, refuses_at_limit = True \<rparr>"

text \<open>The same surroundings with a multer that stores a file of exactly \<open>fileSize\<close>
  bytes.\<close>

definition clock_lenient :: env where
  "clock_lenient = clock\<lparr> refuses_at_limit := False \<rparr>"

definition dubliners :: create_request where
  "dubliners =
     \<lparr> req_title = Some ''Dubliners'', req_author = Some ''James Joyce'',
       req_description = Some ''Fifteen stories of Dublin life'', req_file = None \<rparr>"

text \<open>A description of ten characters, seven of them trailing spaces.\<close>

definition padded_description :: create_request where
  "padded_description = dubliners\<lparr> req_description := Some ''abc       '' \<rparr>"

definition cover :: upload where
  "cover = \<lparr> fieldname = ''image'', mimetype = ''image/png'', size_bytes = 6000, ext = ''.png'' \<rparr>"



definition big_cover :: upload where
  "big_cover = cover\<lparr> size_bytes := 5242881 \<rparr>"

text \<open>A cover of exactly \<open>fileSize\<close> bytes.\<close>

definition full_cover :: upload where
  "full_cover = cover\<lparr> size_bytes := 5242880 \<rparr>"

definition pdf :: upload where
  "pdf =
     \<lparr> fieldname = ''image'', mimetype = ''application/pdf'', size_bytes = 1024,
       ext = ''.pdf'' \<rparr>"

definition big_pdf :: upload where
  "big_pdf = pdf\<lparr> size_bytes := 6000000 \<rparr>"

definition with_file :: "create_request \<Rightarrow> upload \<Rightarrow> create_request" where
  "with_file r u = r\<lparr> req_file := Some u \<rparr>"

text \<open>A request with a cover and no title; a shelf whose database is down and where the
  cover cannot be removed.\<close>

definition untitled :: create_request where
  "untitled = with_file (dubliners\<lparr> req_title := None \<rparr>) cover"


section \<open>Verification\<close>

subsection \<open>Sorting\<close>

lemma length_insert_by: "length (insert_by le x xs) = Suc (length xs)"
  by (induction xs) auto

lemma length_sort_by: "length (sort_by le xs) = length xs"
  by (induction xs) (auto simp: sort_by_def length_insert_by)

lemma mset_insert_by: "mset (insert_by le x xs) = add_mset x (mset xs)"
  by (induction xs) auto

lemma mset_sort_by: "mset (sort_by le xs) = mset xs"
  by (induction xs) (auto simp: sort_by_def mset_insert_by)

lemma set_sort_by: "set (sort_by le xs) = set xs"
  using mset_sort_by [of le xs] by (rule mset_eq_setD)

lemma set_insert_by: "set (insert_by le x xs) = insert x (set xs)"
  by (induction xs) auto

lemma sorted_insert_by:
  assumes tot: "\<And>a b. le a b \<or> le b a"
    and tr: "\<And>a b c. le a b \<Longrightarrow> le b c \<Longrightarrow> le a c"
  shows "sorted_wrt le xs \<Longrightarrow> sorted_wrt le (insert_by le x xs)"
proof (induction xs)
  case Nil
  then show ?case by simp
next
  case (Cons y ys)
  show ?case
  proof (cases "le x y")
    case True
    with Cons.prems tr show ?thesis by auto
  next
    case False
    with tot have "le y x" by blast
    with Cons False show ?thesis by (auto simp: set_insert_by)
  qed
qed

lemma sorted_sort_by:
  assumes tot: "\<And>a b. le a b \<or> le b a"
    and tr: "\<And>a b c. le a b \<Longrightarrow> le b c \<Longrightarrow> le a c"
  shows "sorted_wrt le (sort_by le xs)"
proof (induction xs)
  case Nil
  then show ?case by (simp add: sort_by_def)
next
  case (Cons x xs)
  have "sort_by le (x # xs) = insert_by le x (sort_by le xs)"
    by (simp add: sort_by_def)
  with Cons sorted_insert_by [of le, OF tot tr] show ?case by simp
qed

lemma str_le_total: "str_le s t \<or> str_le t s"
  by (induction s t rule: str_le.induct) auto

lemma str_le_trans: "str_le s t \<Longrightarrow> str_le t u \<Longrightarrow> str_le s u"
proof (induction s t arbitrary: u rule: str_le.induct)
  case (1 ys)
  then show ?case by simp
next
  case (2 x xs)
  then show ?case by simp
next
  case (3 x xs y ys)
  then show ?case by (cases u) (auto split: if_splits)
qed

lemma bson_le_total: "bson_le a b \<or> bson_le b a"
  by (cases a; cases b) (auto simp: str_le_total)

lemma bson_le_trans: "bson_le a b \<Longrightarrow> bson_le b c \<Longrightarrow> bson_le a c"
  by (cases a; cases b; cases c) (auto intro: str_le_trans)

lemma doc_le_total: "doc_le spec a b \<or> doc_le spec b a"
  using bson_le_total by (auto simp: doc_le_def split: prod.splits)

lemma doc_le_trans: "doc_le spec a b \<Longrightarrow> doc_le spec b c \<Longrightarrow> doc_le spec a c"
  by (auto simp: doc_le_def split: prod.splits if_splits intro: bson_le_trans)

text \<open>The documents come back in the order that the sort specification asks for.\<close>

lemma sorted_docs: "sorted_wrt (doc_le spec) (sort_by (doc_le spec) xs)"
proof (rule sorted_sort_by)
  show "doc_le spec a b \<or> doc_le spec b a" for a b
    by (rule doc_le_total)
  show "doc_le spec a b \<Longrightarrow> doc_le spec b c \<Longrightarrow> doc_le spec a c" for a b c
    by (rule doc_le_trans)
qed

subsection \<open>Plain search terms\<close>

lemma match_here_Lit:
  "match_here (map Lit t) s \<longleftrightarrow> (\<exists>v. map to_lower s = map to_lower t @ v)"
proof (induction t arbitrary: s)
  case Nil
  then show ?case by simp
next
  case (Cons a t)
  then show ?case by (cases s) auto
qed

lemma regex_search_split:
  "regex_search ps s \<longleftrightarrow> (\<exists>u v. s = u @ v \<and> match_here ps v)"
proof (induction s)
  case Nil
  then show ?case by simp
next
  case (Cons c cs)
  have "(\<exists>u v. c # cs = u @ v \<and> match_here ps v)
        \<longleftrightarrow> match_here ps (c # cs) \<or> (\<exists>u v. cs = u @ v \<and> match_here ps v)"
    by (auto simp: Cons_eq_append_conv)
  with Cons show ?case by simp
qed

text \<open>A pattern of ordinary characters finds exactly the literal occurrences.\<close>

lemma regex_search_Lit: "regex_search (map Lit t) s \<longleftrightarrow> occurs_ci t s"
proof
  assume "regex_search (map Lit t) s"
  then obtain u v where uv: "s = u @ v" "match_here (map Lit t) v"
    unfolding regex_search_split by blast
  then obtain x where "map to_lower v = map to_lower t @ x"
    unfolding match_here_Lit by blast
  with uv have "map to_lower s = map to_lower u @ map to_lower t @ x"
    by simp
  then show "occurs_ci t s"
    unfolding occurs_ci_def by blast
next
  assume "occurs_ci t s"
  then obtain u v where "map to_lower s = u @ (map to_lower t @ v)"
    unfolding occurs_ci_def by auto
  then have "drop (length u) (map to_lower s) = map to_lower t @ v"
    by simp
  then have "map to_lower (drop (length u) s) = map to_lower t @ v"
    by (simp add: drop_map)
  then have "match_here (map Lit t) (drop (length u) s)"
    unfolding match_here_Lit by blast
  moreover have "s = take (length u) s @ drop (length u) s"
    by simp
  ultimately show "regex_search (map Lit t) s"
    unfolding regex_search_split by blast
qed

lemma compile_plain: "plain_text t \<Longrightarrow> compile t = Some (map Lit t)"
  by (induction t) (auto simp: plain_text_def compile_item_def regex_special_def)

lemma matches_plain:
  assumes "t \<noteq> []" and "plain_text t"
  shows "matches (searchQuery t) b \<longleftrightarrow> literal_match t b"
  using assms
  by (simp add: searchQuery_def compile_plain string_field_def regex_search_Lit
      literal_match_def)

lemma supported_plain: "plain_text t \<Longrightarrow> supported (searchQuery t)"
  by (simp add: searchQuery_def compile_plain)

lemma search_param: "q_search q = Some s \<Longrightarrow> s \<noteq> [] \<Longrightarrow> search (listParams q) = s"
  by (simp add: listParams_def string_or_def)

subsection \<open>The list handler, case by case\<close>

lemma emit_fields [simp]:
  "docs (emit e w) = docs w"
  "dbOnline (emit e w) = dbOnline w"
  "files (emit e w) = files w"
  "locked (emit e w) = locked w"
  "pending (emit e w) = pending w"
  "trace (emit e w) = trace w @ [e]"
  by (simp_all add: emit_def)

lemma countDocuments_eq:
  "countDocuments q w =
     (if \<not> supported q then Unmodelled
      else if \<not> dbOnline w then Throws ''database unavailable''
      else Returns (length (filter (matches q) (docs w))), emit (DbCount q) w)"
  by (simp add: countDocuments_def Let_def)

lemma find_docs_eq:
  "find_docs q spec skip lmt w =
     (if \<not> supported q then Unmodelled
      else if \<not> dbOnline w then Throws ''database unavailable''
      else if skip < 0 then Throws ''Skip value must be non-negative''
      else Returns
        (let skipped = drop (nat skip) (sort_by (doc_le spec) (filter (matches q) (docs w)))
         in if lmt = 0 then skipped else take (nat \<bar>lmt\<bar>) skipped),
      emit (DbFind q spec skip lmt) w)"
  by (simp add: find_docs_def Let_def)

lemma listWith_eq:
  "listWith p w =
     (if \<not> supported (searchQuery (search p)) then (None, emit (DbCount (searchQuery (search p))) w)
      else if \<not> dbOnline w then
        (Some (InternalServerError ''database unavailable''), emit (DbCount (searchQuery (search p))) w)
      else if skip_of p < 0 then
        (Some (InternalServerError ''Skip value must be non-negative''),
         emit (DbFind (searchQuery (search p)) (sortBy p, sortOrder p) (skip_of p) (limit p))
           (emit (DbCount (searchQuery (search p))) w))
      else
        (Some (BookList
           (let skipped = drop (nat (skip_of p))
                  (sort_by (doc_le (sortBy p, sortOrder p))
                     (filter (matches (searchQuery (search p))) (docs w)))
            in if limit p = 0 then skipped else take (nat \<bar>limit p\<bar>) skipped)
           \<lparr> currentPage = page p,
             totalPages =
               ceil_div (int (length (filter (matches (searchQuery (search p))) (docs w))))
                 (limit p),
             totalBooks = int (length (filter (matches (searchQuery (search p))) (docs w))),
             hasNextPage =
               (page p <
                ceil_div (int (length (filter (matches (searchQuery (search p))) (docs w))))
                  (limit p)),
             hasPrevPage = (page p > 1),
             perPage = limit p \<rparr>),
         emit (DbFind (searchQuery (search p)) (sortBy p, sortOrder p) (skip_of p) (limit p))
           (emit (DbCount (searchQuery (search p))) w)))"
  by (simp add: listWith_def countDocuments_eq find_docs_eq Let_def)

text \<open>Whatever list comes back, it holds selected documents only, and the count is the
  number of selected documents.\<close>

lemma listBooks_selected:
  assumes "fst (listBooks q w) = Some (BookList bs pg)"
  shows "totalBooks pg = int (length (filter (matches (searchQuery (search (listParams q)))) (docs w)))"
    and "set bs \<subseteq> set (filter (matches (searchQuery (search (listParams q)))) (docs w))"
proof -
  let ?p = "listParams q"
  let ?found = "filter (matches (searchQuery (search ?p))) (docs w)"
  let ?skipped = "drop (nat (skip_of ?p)) (sort_by (doc_le (sortBy ?p, sortOrder ?p)) ?found)"
  from assms have pg: "totalBooks pg = int (length ?found)"
    and bs: "bs = (if limit ?p = 0 then ?skipped else take (nat \<bar>limit ?p\<bar>) ?skipped)"
    by (auto simp: listBooks_def listWith_eq Let_def split: if_splits)
  show "totalBooks pg = int (length ?found)"
    by (rule pg)
  have "set ?skipped \<subseteq> set (sort_by (doc_le (sortBy ?p, sortOrder ?p)) ?found)"
    by (rule set_drop_subset)
  then have "set ?skipped \<subseteq> set ?found"
    by (simp only: set_sort_by)
  moreover have "set (take n ?skipped) \<subseteq> set ?skipped" for n
    by (rule set_take_subset)
  ultimately show "set bs \<subseteq> set ?found"
    unfolding bs by (cases "limit ?p = 0") auto
qed

subsection \<open>Arithmetic of the page count\<close>

lemma ceil_div_ceiling: "ceil_div (int n) l = \<lceil>real n / real_of_int l\<rceil>"
proof -
  have "\<lceil>real_of_int (int n) / real_of_int l\<rceil> = - (- int n div l)"
    by (rule ceiling_divide_eq_div)
  then show ?thesis by (simp add: ceil_div_def)
qed

lemma ceil_div_upper: "0 < l \<Longrightarrow> a \<le> ceil_div a l * l"
proof -
  assume l: "0 < l"
  have "(- a) div l * l \<le> - a"
    using pos_mod_sign [OF l, of "- a"] div_mult_mod_eq [of "- a" l] by linarith
  then show ?thesis by (simp add: ceil_div_def)
qed

lemma page_past_end:
  assumes "1 \<le> l" and "ceil_div (int n) l < pg"
  shows "n \<le> nat ((pg - 1) * l)"
proof -
  have "int n \<le> ceil_div (int n) l * l"
    using assms(1) by (intro ceil_div_upper) simp
  also have "\<dots> \<le> (pg - 1) * l"
    using assms by (intro mult_right_mono) auto
  finally show ?thesis by simp
qed

lemma parseInt_or_cases:
  "(parseInt v = None \<or> parseInt v = Some 0 \<longrightarrow> parseInt_or v d = d)
   \<and> (\<forall>n. parseInt v = Some n \<and> n \<noteq> 0 \<longrightarrow> parseInt_or v d = n)"
  by (auto simp: parseInt_or_def)

subsection \<open>Claims about the list request\<close>

text \<open>
  Claim C1, as amended. The search term is handed to the store as a regular expression
  with the option \<open>i\<close>. When the term is not empty and holds no character that the
  pattern syntax treats specially, the books that the filter selects are exactly those in
  which the term occurs, case-insensitively, as a literal substring of the title, the
  author or the description; the request is answered, and a response that lists books
  counts exactly those books and lists only such books.
\<close>

theorem search_plain_text_is_literal:
  assumes "q_search q = Some s" and "s \<noteq> []" and "plain_text s"
  shows "search (listParams q) = s
       \<and> (matches (searchQuery (search (listParams q))) b \<longleftrightarrow> literal_match s b)
       \<and> fst (listBooks q w) \<noteq> None
       \<and> (\<forall>bs pg. fst (listBooks q w) = Some (BookList bs pg) \<longrightarrow>
             totalBooks pg = int (length (filter (literal_match s) (docs w)))
             \<and> (\<forall>x \<in> set bs. x \<in> set (docs w) \<and> literal_match s x))"
proof -
  have s: "search (listParams q) = s"
    using assms(1,2) by (rule search_param)
  have m: "matches (searchQuery s) x \<longleftrightarrow> literal_match s x" for x
    using assms(2,3) by (rule matches_plain)
  have f: "filter (matches (searchQuery s)) (docs w) = filter (literal_match s) (docs w)"
    by (rule filter_cong) (simp_all add: m)
  have m': "matches (searchQuery (search (listParams q))) b \<longleftrightarrow> literal_match s b"
    unfolding s by (rule m)
  have r: "\<forall>bs pg. fst (listBooks q w) = Some (BookList bs pg) \<longrightarrow>
             totalBooks pg = int (length (filter (literal_match s) (docs w)))
             \<and> (\<forall>x \<in> set bs. x \<in> set (docs w) \<and> literal_match s x)"
  proof (intro allI impI)
    fix bs pg
    assume a: "fst (listBooks q w) = Some (BookList bs pg)"
    have t: "totalBooks pg = int (length (filter (literal_match s) (docs w)))"
      using listBooks_selected(1) [OF a] unfolding s f .
    have "set bs \<subseteq> set (filter (literal_match s) (docs w))"
      using listBooks_selected(2) [OF a] unfolding s f .
    then have "\<forall>x \<in> set bs. x \<in> set (docs w) \<and> literal_match s x"
      by auto
    with t show "totalBooks pg = int (length (filter (literal_match s) (docs w)))
             \<and> (\<forall>x \<in> set bs. x \<in> set (docs w) \<and> literal_match s x)"
      by (rule conjI)
  qed
  have n: "fst (listBooks q w) \<noteq> None"
    using supported_plain [OF assms(3)] by (simp add: listBooks_def listWith_eq s)
  show ?thesis
    by (rule conjI [OF s conjI [OF m' conjI [OF n r]]])
qed

text \<open>The books of the example: \<open>The Great Gatsby\<close> is found by \<open>gatsby\<close> and by
  \<open>GATSBY\<close>, and the other book of the shelf is not.\<close>

theorem search_plain_text_is_literal_witness:
  "q_search (search_for ''gatsby'') = Some ''gatsby'' \<and> ''gatsby'' \<noteq> [] \<and> plain_text ''gatsby''
   \<and> q_search (search_for ''GATSBY'') = Some ''GATSBY'' \<and> ''GATSBY'' \<noteq> [] \<and> plain_text ''GATSBY''
   \<and> literal_match ''gatsby'' gatsby \<and> literal_match ''GATSBY'' gatsby
   \<and> \<not> literal_match ''GATSBY'' ulysses
   \<and> fst (listBooks (search_for ''GATSBY'') shelf) =
       Some (BookList [gatsby] \<lparr> currentPage = 1, totalPages = 1, totalBooks = 1,
         hasNextPage = False, hasPrevPage = False, perPage = 10 \<rparr>)"
proof -
  have h1: "q_search (search_for ''gatsby'') = Some ''gatsby''" "''gatsby'' \<noteq> []"
      "plain_text ''gatsby''"
    by code_simp+
  have h2: "q_search (search_for ''GATSBY'') = Some ''GATSBY''" "''GATSBY'' \<noteq> []"
      "plain_text ''GATSBY''"
    by code_simp+
  have e1: "matches (searchQuery (search (listParams (search_for ''gatsby'')))) gatsby"
    by code_simp
  have e2: "matches (searchQuery (search (listParams (search_for ''GATSBY'')))) gatsby"
    by code_simp
  have e3: "\<not> matches (searchQuery (search (listParams (search_for ''GATSBY'')))) ulysses"
    by code_simp
  have e4: "fst (listBooks (search_for ''GATSBY'') shelf) =
       Some (BookList [gatsby] \<lparr> currentPage = 1, totalPages = 1, totalBooks = 1,
         hasNextPage = False, hasPrevPage = False, perPage = 10 \<rparr>)"
    by code_simp
  from search_plain_text_is_literal [OF h1, of gatsby shelf] e1
  have "literal_match ''gatsby'' gatsby" by simp
  moreover from search_plain_text_is_literal [OF h2, of gatsby shelf] e2
  have "literal_match ''GATSBY'' gatsby" by simp
  moreover from search_plain_text_is_literal [OF h2, of ulysses shelf] e3
  have "\<not> literal_match ''GATSBY'' ulysses" by simp
  ultimately show ?thesis using h1 h2 e4 by simp
qed

text \<open>
  Claim C1 as it is written fails: the term \<open>Gat.by\<close> does not occur in any field of
  \<open>The Great Gatsby\<close>, and the book is selected all the same, because the dot of the
  term is read as a pattern and matches the \<open>s\<close> of \<open>Gatsby\<close>.
\<close>

theorem search_term_is_a_pattern:
  "q_search (search_for ''Gat.by'') = Some ''Gat.by''
   \<and> \<not> literal_match ''Gat.by'' gatsby
   \<and> matches (searchQuery (search (listParams (search_for ''Gat.by'')))) gatsby
   \<and> fst (listBooks (search_for ''Gat.by'') shelf) =
       Some (BookList [gatsby] \<lparr> currentPage = 1, totalPages = 1, totalBooks = 1,
         hasNextPage = False, hasPrevPage = False, perPage = 10 \<rparr>)"
proof -
  have "\<not> literal_match ''Gat.by'' gatsby"
    unfolding literal_match_def regex_search_Lit [symmetric] by code_simp
  moreover have "q_search (search_for ''Gat.by'') = Some ''Gat.by''"
    by code_simp
  moreover have "matches (searchQuery (search (listParams (search_for ''Gat.by'')))) gatsby"
    by code_simp
  moreover have "fst (listBooks (search_for ''Gat.by'') shelf) =
       Some (BookList [gatsby] \<lparr> currentPage = 1, totalPages = 1, totalBooks = 1,
         hasNextPage = False, hasPrevPage = False, perPage = 10 \<rparr>)"
    by code_simp
  ultimately show ?thesis by simp
qed

text \<open>
  Claim C2 fails on the code: the parsed values are not clamped. With \<open>page=-3\<close> and
  \<open>limit=1000\<close> the handler works with page \<open>-3\<close>, limit \<open>1000\<close> and skip \<open>-4000\<close>, and a
  request with \<open>limit=1000\<close> is served with that limit.
\<close>

theorem page_and_limit_not_clamped:
  "page (listParams page_minus3_limit_1000) = - 3
   \<and> limit (listParams page_minus3_limit_1000) = 1000
   \<and> skip_of (listParams page_minus3_limit_1000) = - 4000
   \<and> fst (listBooks (no_query\<lparr> q_limit := Some ''1000'' \<rparr>) shelf) =
       Some (BookList [gatsby, ulysses] \<lparr> currentPage = 1, totalPages = 1, totalBooks = 2,
         hasNextPage = False, hasPrevPage = False, perPage = 1000 \<rparr>)"
  by code_simp

text \<open>
  Pagination where the page and the limit are both at least 1, with the database answering,
  the search within the embedded patterns and the numbers such as JavaScript holds
  exactly: the response lists the selected documents
  in the requested order, without the first \<open>(page - 1) * limit\<close> and at most \<open>limit\<close> of
  them; it reports the number of selected documents, the number of pages
  \<open>ceil(total / limit)\<close>, and the two flags \<open>page < totalPages\<close> and \<open>page > 1\<close>; a page
  beyond the last is an empty list with the same report.
\<close>

lemma pagination_window:
  fixes q :: list_query and w :: world
  defines "p \<equiv> listParams q"
  defines "found \<equiv> filter (matches (searchQuery (search p))) (docs w)"
  defines "ordered \<equiv> sort_by (doc_le (sortBy p, sortOrder p)) found"
  defines "pages \<equiv> \<lceil>real (length found) / real_of_int (limit p)\<rceil>"
  defines "shown \<equiv> take (nat (limit p)) (drop (nat ((page p - 1) * limit p)) ordered)"
  assumes "1 \<le> page p" and "1 \<le> limit p" and "dbOnline w"
    and "supported (searchQuery (search p))"
    and "safe_integer (page p * limit p)" and "safe_integer (int (length (docs w)))"
  shows "fst (listBooks q w) =
           Some (BookList shown
             \<lparr> currentPage = page p, totalPages = pages, totalBooks = int (length found),
               hasNextPage = (page p < pages), hasPrevPage = (1 < page p),
               perPage = limit p \<rparr>)
         \<and> int (length shown) \<le> limit p
         \<and> sorted_wrt (doc_le (sortBy p, sortOrder p)) ordered
         \<and> mset ordered = mset found
         \<and> (pages < page p \<longrightarrow> shown = [])"
proof -
  have "0 \<le> (page p - 1) * limit p"
    using assms(6,7) by (intro mult_nonneg_nonneg) auto
  then have skip: "\<not> skip_of p < 0"
    by (simp add: skip_of_def)
  have lim: "limit p \<noteq> 0" "\<bar>limit p\<bar> = limit p"
    using assms(7) by auto
  have pages: "pages = ceil_div (int (length found)) (limit p)"
    by (simp add: pages_def ceil_div_ceiling)
  have 1: "fst (listBooks q w) =
           Some (BookList shown
             \<lparr> currentPage = page p, totalPages = pages, totalBooks = int (length found),
               hasNextPage = (page p < pages), hasPrevPage = (1 < page p),
               perPage = limit p \<rparr>)"
    using assms(8,9) skip lim
    by (simp add: listBooks_def p_def [symmetric] listWith_eq pages found_def [symmetric]
        ordered_def [symmetric] shown_def skip_of_def)
  have 2: "int (length shown) \<le> limit p"
    using assms(7) by (simp add: shown_def)
  have 3: "sorted_wrt (doc_le (sortBy p, sortOrder p)) ordered"
    unfolding ordered_def by (rule sorted_docs)
  have 4: "mset ordered = mset found"
    by (simp add: ordered_def mset_sort_by)
  have 5: "shown = []" if "pages < page p"
  proof -
    have "length ordered \<le> nat ((page p - 1) * limit p)"
      using page_past_end [OF assms(7), of "length found" "page p"] that
      by (simp add: pages ordered_def length_sort_by)
    then show ?thesis by (simp add: shown_def)
  qed
  from 1 2 3 4 5 show ?thesis by blast
qed

text \<open>With 47 books, \<open>limit=10\<close> and \<open>page=5\<close>: seven books, five pages, no next page, a
  previous page.\<close>

lemma pagination_window_47_books:
  "1 \<le> page (listParams page5_of_10) \<and> 1 \<le> limit (listParams page5_of_10)
   \<and> dbOnline library47 \<and> supported (searchQuery (search (listParams page5_of_10)))
   \<and> safe_integer (page (listParams page5_of_10) * limit (listParams page5_of_10))
   \<and> safe_integer (int (length (docs library47)))
   \<and> (\<exists>bs. fst (listBooks page5_of_10 library47) =
          Some (BookList bs \<lparr> currentPage = 5, totalPages = 5, totalBooks = 47,
            hasNextPage = False, hasPrevPage = True, perPage = 10 \<rparr>)
        \<and> length bs = 7)"
proof -
  have p: "listParams page5_of_10 =
      \<lparr> page = 5, limit = 10, search = [], sortBy = ''createdAt'', sortOrder = - 1 \<rparr>"
    by code_simp
  show ?thesis
    using pagination_window [of page5_of_10 library47]
    by (simp add: p library47_def searchQuery_def length_sort_by safe_integer_def)
qed

text \<open>
  Claim C3 fails on the code: the limit is not checked, and a list request with \<open>limit=-5\<close>
  on two books is answered with both books, which is more than the limit, and with a page
  count of \<open>0\<close>.
\<close>

theorem negative_limit_returns_more:
  "fst (listBooks limit_minus5 shelf) =
     Some (BookList [gatsby, ulysses] \<lparr> currentPage = 1, totalPages = 0, totalBooks = 2,
       hasNextPage = False, hasPrevPage = False, perPage = - 5 \<rparr>)
   \<and> \<not> int (length [gatsby, ulysses]) \<le> limit (listParams limit_minus5)"
  by code_simp

text \<open>
  Claim C5 fails on the code: any non-empty \<open>sortBy\<close> is used as the sort field. With
  \<open>sortBy=description\<close> the books come back by description, the other way round than by
  the default, the date of creation. The direction is always \<open>1\<close> or \<open>-1\<close>.
\<close>

theorem sort_field_not_restricted:
  "sortBy (listParams by_description) = ''description''
   \<and> fst (listBooks by_description shelf) =
       Some (BookList [ulysses, gatsby] \<lparr> currentPage = 1, totalPages = 1, totalBooks = 2,
         hasNextPage = False, hasPrevPage = False, perPage = 10 \<rparr>)
   \<and> fst (listBooks no_query shelf) =
       Some (BookList [gatsby, ulysses] \<lparr> currentPage = 1, totalPages = 1, totalBooks = 2,
         hasNextPage = False, hasPrevPage = False, perPage = 10 \<rparr>)"
  by code_simp

text \<open>The part of claim C5 that holds: the defaults, and the two directions.\<close>

lemma sort_defaults:
  "sortOrder (listParams q) \<in> {1, - 1}
   \<and> (sortOrder (listParams q) = 1 \<longleftrightarrow> q_sortOrder q = Some ''asc'')
   \<and> (q_sortBy q = None \<longrightarrow> sortBy (listParams q) = ''createdAt'')"
  by (simp add: listParams_def string_or_def)

text \<open>
  Claim C10. A page or limit that is absent, does not parse or parses to \<open>0\<close> is replaced by
  its default, 1 or 10; any other parsed integer, negative or above 100 as it may be, is the
  page or the limit as it is. These values reach the store: with the database answering,
  the handler counts and then asks for the documents with the skip \<open>(page - 1) * limit\<close> and
  with the limit, and a response that lists books reports the page and the limit. The
  numbers are such as JavaScript holds exactly, and the search is within the embedded
  patterns.
\<close>

theorem page_limit_defaulting:
  fixes q :: list_query and w :: world
  defines "p \<equiv> listParams q"
  assumes "safe_parse (q_page q)" and "safe_parse (q_limit q)"
    and "safe_integer ((page p - 1) * limit p)"
    and "dbOnline w" and "supported (searchQuery (search p))"
  shows "parseInt None = None
       \<and> (parseInt (q_page q) = None \<or> parseInt (q_page q) = Some 0 \<longrightarrow> page p = 1)
       \<and> (parseInt (q_limit q) = None \<or> parseInt (q_limit q) = Some 0 \<longrightarrow> limit p = 10)
       \<and> (\<forall>n. parseInt (q_page q) = Some n \<and> n \<noteq> 0 \<longrightarrow> page p = n)
       \<and> (\<forall>n. parseInt (q_limit q) = Some n \<and> n \<noteq> 0 \<longrightarrow> limit p = n)
       \<and> trace (snd (listBooks q w)) =
           trace w @
           [DbCount (searchQuery (search p)),
            DbFind (searchQuery (search p)) (sortBy p, sortOrder p)
              ((page p - 1) * limit p) (limit p)]
       \<and> (\<forall>bs pg. fst (listBooks q w) = Some (BookList bs pg) \<longrightarrow>
             currentPage pg = page p \<and> perPage pg = limit p)"
proof -
  have 1: "parseInt None = None"
    by code_simp
  have pg: "page p = parseInt_or (q_page q) 1"
    and lm: "limit p = parseInt_or (q_limit q) 10"
    by (simp_all add: p_def listParams_def)
  have 2: "parseInt (q_page q) = None \<or> parseInt (q_page q) = Some 0 \<longrightarrow> page p = 1"
    and 4: "\<forall>n. parseInt (q_page q) = Some n \<and> n \<noteq> 0 \<longrightarrow> page p = n"
    using parseInt_or_cases [of "q_page q" 1] unfolding pg by blast+
  have 3: "parseInt (q_limit q) = None \<or> parseInt (q_limit q) = Some 0 \<longrightarrow> limit p = 10"
    and 5: "\<forall>n. parseInt (q_limit q) = Some n \<and> n \<noteq> 0 \<longrightarrow> limit p = n"
    using parseInt_or_cases [of "q_limit q" 10] unfolding lm by blast+
  have 6: "trace (snd (listBooks q w)) =
           trace w @
           [DbCount (searchQuery (search p)),
            DbFind (searchQuery (search p)) (sortBy p, sortOrder p)
              ((page p - 1) * limit p) (limit p)]"
    using assms(5,6)
    by (simp add: listBooks_def p_def [symmetric] listWith_eq skip_of_def)
  have 7: "\<forall>bs pg. fst (listBooks q w) = Some (BookList bs pg) \<longrightarrow>
             currentPage pg = page p \<and> perPage pg = limit p"
    by (auto simp: listBooks_def p_def [symmetric] listWith_eq split: if_splits)
  from 1 2 3 4 5 6 7 show ?thesis
    by (intro conjI)
qed

text \<open>With \<open>page=-3\<close> and \<open>limit=1000\<close> the store is asked for 1000 documents after the
  first -4000, which it refuses; with \<open>limit=0\<close> and no page the defaults are used.\<close>

theorem page_limit_defaulting_witness:
  "safe_parse (q_page page_minus3_limit_1000) \<and> safe_parse (q_limit page_minus3_limit_1000)
   \<and> safe_integer ((page (listParams page_minus3_limit_1000) - 1)
        * limit (listParams page_minus3_limit_1000))
   \<and> dbOnline shelf
   \<and> supported (searchQuery (search (listParams page_minus3_limit_1000)))
   \<and> parseInt (q_page page_minus3_limit_1000) = Some (- 3)
   \<and> parseInt (q_limit page_minus3_limit_1000) = Some 1000
   \<and> page (listParams page_minus3_limit_1000) = - 3
   \<and> limit (listParams page_minus3_limit_1000) = 1000
   \<and> trace (snd (listBooks page_minus3_limit_1000 shelf)) =
       [DbCount MatchAll, DbFind MatchAll (''createdAt'', - 1) (- 4000) 1000]
   \<and> safe_parse (q_page limit_zero) \<and> safe_parse (q_limit limit_zero)
   \<and> safe_integer ((page (listParams limit_zero) - 1) * limit (listParams limit_zero))
   \<and> supported (searchQuery (search (listParams limit_zero)))
   \<and> parseInt (q_page limit_zero) = None \<and> page (listParams limit_zero) = 1
   \<and> parseInt (q_limit limit_zero) = Some 0 \<and> limit (listParams limit_zero) = 10
   \<and> trace (snd (listBooks limit_zero shelf)) =
       [DbCount MatchAll, DbFind MatchAll (''createdAt'', - 1) 0 10]"
proof -
  have a: "parseInt (q_page page_minus3_limit_1000) = Some (- 3)"
    and b: "parseInt (q_limit page_minus3_limit_1000) = Some 1000"
    and c: "parseInt (q_page limit_zero) = None"
    and d: "parseInt (q_limit limit_zero) = Some 0"
    by code_simp+
  have s: "safe_parse (q_page page_minus3_limit_1000)"
      "safe_parse (q_limit page_minus3_limit_1000)"
      "safe_parse (q_page limit_zero)" "safe_parse (q_limit limit_zero)"
    by (simp_all add: safe_parse_def a b c d safe_integer_def)
  have p1: "listParams page_minus3_limit_1000 =
      \<lparr> page = - 3, limit = 1000, search = [], sortBy = ''createdAt'', sortOrder = - 1 \<rparr>"
    and p2: "listParams limit_zero =
      \<lparr> page = 1, limit = 10, search = [], sortBy = ''createdAt'', sortOrder = - 1 \<rparr>"
    by code_simp+
  have e: "safe_integer ((page (listParams page_minus3_limit_1000) - 1)
        * limit (listParams page_minus3_limit_1000))"
      "safe_integer ((page (listParams limit_zero) - 1) * limit (listParams limit_zero))"
    by (simp_all add: p1 p2 safe_integer_def)
  have f: "dbOnline shelf" "trace shelf = []"
    by (simp_all add: shelf_def)
  have g: "supported (searchQuery (search (listParams page_minus3_limit_1000)))"
      "supported (searchQuery (search (listParams limit_zero)))"
    by (simp_all add: p1 p2 searchQuery_def)
  have m: "searchQuery [] = MatchAll"
    by (simp add: searchQuery_def)
  from page_limit_defaulting [OF s(1,2) e(1) f(1) g(1)]
  have 1: "page (listParams page_minus3_limit_1000) = - 3"
    and 2: "limit (listParams page_minus3_limit_1000) = 1000"
    and 3: "trace (snd (listBooks page_minus3_limit_1000 shelf)) =
       [DbCount MatchAll, DbFind MatchAll (''createdAt'', - 1) (- 4000) 1000]"
    by (simp_all add: a b f p1 m)
  from page_limit_defaulting [OF s(3,4) e(2) f(1) g(2)]
  have 4: "page (listParams limit_zero) = 1"
    and 5: "limit (listParams limit_zero) = 10"
    and 6: "trace (snd (listBooks limit_zero shelf)) =
       [DbCount MatchAll, DbFind MatchAll (''createdAt'', - 1) 0 10]"
    by (simp_all add: c d f p2 m)
  from s e f(1) g a b c d 1 2 3 4 5 6 show ?thesis
    by (intro conjI)
qed

subsection \<open>Claims about the request for one book\<close>

lemma getBook_eq:
  "getBook ident w =
     (if \<not> isMongoId ident then (ValidationFailed [(''id'', ''Invalid book ID format'')], w)
      else
        (case castObjectId ident of
           None \<Rightarrow> (InternalServerError (cast_error ident), w)
         | Some oid \<Rightarrow>
             if \<not> dbOnline w then
               (InternalServerError ''database unavailable'', emit (DbFindById ident) w)
             else
               (case find (\<lambda>b. book_id b = oid) (docs w) of
                  None \<Rightarrow> BookNotFound
                | Some b \<Rightarrow> BookData b,
                emit (DbFindById ident) w)))"
  by (simp add: getBook_def handleValidationErrors_def getBookValidation_def findById_def
      Let_def split: option.splits)

text \<open>
  Claim C6 fails on the code: \<open>isMongoId\<close> lets a string of 24 characters through that
  begins with \<open>0x\<close>. It is no ObjectId; the validation passes, the cast in \<open>findById\<close>
  throws, and the request is answered with status 500 and not with the validation failure
  \<open>Invalid book ID format\<close> (status 400). The store is not asked.
\<close>

theorem prefixed_id_answers_500:
  "isMongoId prefixed_id
   \<and> castObjectId prefixed_id = None
   \<and> getBook prefixed_id shelf = (InternalServerError (cast_error prefixed_id), shelf)
   \<and> status (fst (getBook prefixed_id shelf)) = 500"
proof -
  have a: "isMongoId prefixed_id" and b: "castObjectId prefixed_id = None"
    by code_simp+
  then show ?thesis
    by (simp add: getBook_eq)
qed

text \<open>
  What does hold: a string that \<open>isMongoId\<close> refuses is answered with the validation
  failure and the world is as before, no lookup was made; an ObjectId that no document has
  is answered with \<open>Book not found\<close>, and one that a document has with that document, the
  database answering.
\<close>

lemma get_by_id:
  "(\<not> isMongoId ident \<longrightarrow>
      getBook ident w = (ValidationFailed [(''id'', ''Invalid book ID format'')], w)
      \<and> status (fst (getBook ident w)) = 400)
   \<and> (isMongoId ident \<and> castObjectId ident = Some oid \<and> dbOnline w
        \<and> (\<forall>b \<in> set (docs w). book_id b \<noteq> oid) \<longrightarrow>
      fst (getBook ident w) = BookNotFound \<and> status (fst (getBook ident w)) = 404
      \<and> trace (snd (getBook ident w)) = trace w @ [DbFindById ident])
   \<and> (\<forall>b. isMongoId ident \<and> castObjectId ident = Some oid \<and> dbOnline w
        \<and> find (\<lambda>b. book_id b = oid) (docs w) = Some b \<longrightarrow>
      fst (getBook ident w) = BookData b \<and> status (fst (getBook ident w)) = 200
      \<and> b \<in> set (docs w) \<and> book_id b = oid)"
proof -
  have 1: "getBook ident w = (ValidationFailed [(''id'', ''Invalid book ID format'')], w)
      \<and> status (fst (getBook ident w)) = 400"
    if "\<not> isMongoId ident"
    using that by (simp add: getBook_eq)
  have 2: "fst (getBook ident w) = BookNotFound \<and> status (fst (getBook ident w)) = 404
      \<and> trace (snd (getBook ident w)) = trace w @ [DbFindById ident]"
    if "isMongoId ident" "castObjectId ident = Some oid" "dbOnline w"
      "\<forall>b \<in> set (docs w). book_id b \<noteq> oid"
  proof -
    have "find (\<lambda>b. book_id b = oid) (docs w) = None"
      using that(4) by (simp add: find_None_iff)
    with that(1,2,3) show ?thesis by (simp add: getBook_eq)
  qed
  have 3: "fst (getBook ident w) = BookData b \<and> status (fst (getBook ident w)) = 200
      \<and> b \<in> set (docs w) \<and> book_id b = oid"
    if "isMongoId ident" "castObjectId ident = Some oid" "dbOnline w"
      "find (\<lambda>b. book_id b = oid) (docs w) = Some b" for b
  proof -
    from that(4) have "b \<in> set (docs w) \<and> book_id b = oid"
      by (auto simp: find_Some_iff)
    with that show ?thesis by (simp add: getBook_eq)
  qed
  from 1 2 3 show ?thesis by blast
qed

text \<open>On the shelf: a string that is no identifier, an ObjectId that no book has, and the
  ObjectId of \<open>gatsby\<close>, also in upper case.\<close>

lemma get_by_id_examples:
  "getBook malformed_id shelf = (ValidationFailed [(''id'', ''Invalid book ID format'')], shelf)
   \<and> fst (getBook unknown_id shelf) = BookNotFound
   \<and> fst (getBook gatsby_id shelf) = BookData gatsby
   \<and> fst (getBook ''64F5A1B2C3D4E5F6A7B8C9D0'' shelf) = BookData gatsby"
  by code_simp

subsection \<open>The create request, step by step\<close>

lemma unlink_fields [simp]:
  "docs (unlink p w) = docs w"
  "dbOnline (unlink p w) = dbOnline w"
  "locked (unlink p w) = locked w"
  "files (unlink p w) = files w"
  "pending (unlink p w) = pending w @ [p]"
  "trace (unlink p w) = trace w @ [FileUnlink p]"
  by (simp_all add: unlink_def)

lemma run_unlink_fields [simp]:
  "docs (run_unlink p w) = docs w"
  "locked (run_unlink p w) = locked w"
  by (simp_all add: run_unlink_def)

text \<open>The removals that run: what they leave of the files and of the console.\<close>

lemma run_all_locked: "locked (foldl (\<lambda>v p. run_unlink p v) w ps) = locked w"
  by (induction ps arbitrary: w) simp_all

lemma run_all_docs: "docs (foldl (\<lambda>v p. run_unlink p v) w ps) = docs w"
  by (induction ps arbitrary: w) simp_all







lemma upload_single_none:
  "upload_single e None w = (Inr None, w)"
  by (simp add: upload_single_def)

lemma upload_single_eq:
  "upload_single e (Some u) w =
     (if fieldname u \<noteq> ''image'' then (Inl (MulterError ''LIMIT_UNEXPECTED_FILE''), w)
      else if \<not> startsWith (mimetype u) ''image/'' then
        (Inl (PlainError ''Only image files are allowed!''), w)
      else if size_bytes u > fileSize \<or> (refuses_at_limit e \<and> size_bytes u = fileSize) then
        (Inl (MulterError ''LIMIT_FILE_SIZE''),
         emit (FileUnlink (storage_path e u)) (emit (FileWrite (storage_path e u)) w))
      else
        (Inr (Some \<lparr> path = storage_path e u, filename = storage_filename e u \<rparr>),
         (emit (FileWrite (storage_path e u)) w)\<lparr>files := files w @ [storage_path e u]\<rparr>))"
  by (simp add: upload_single_def fileFilter_def Let_def)


text \<open>The handler proper answers 201 exactly when the document was saved; otherwise it
  removes the stored file and answers with the error of the save.\<close>

lemma addBook_eq:
  "addBook e body file w =
     (case save e body (case file of None \<Rightarrow> None | Some f \<Rightarrow> Some (''/uploads/'' @ filename f)) w of
        (Inr b, w1) \<Rightarrow> (BookAdded b, w1)
      | (Inl err, w1) \<Rightarrow>
          ((case err of SchemaInvalid es \<Rightarrow> ValidationError es
                      | DbError msg \<Rightarrow> InternalServerError msg),
           (case file of None \<Rightarrow> w1 | Some f \<Rightarrow> unlink (path f) w1)))"
  by (simp add: addBook_def Let_def split: prod.splits sum.splits save_error.splits)

lemma createBook_stored:
  assumes "upload_single e (req_file r) w = (Inr file, w1)"
  shows "createBook e r w =
     (if fst (addBookValidation r) \<noteq> [] then
        (ValidationFailed (fst (addBookValidation r)),
         (case file of None \<Rightarrow> w1 | Some f \<Rightarrow> unlink (path f) w1))
      else addBook e (snd (addBookValidation r)) file w1)"
  using assms
  by (simp add: createBook_def handleValidationErrors_def split: prod.splits)

lemma createBook_rejected:
  assumes "upload_single e (req_file r) w = (Inl err, w1)"
  shows "createBook e r w = (globalErrorHandler err, w1)"
  using assms by (simp add: createBook_def)


lemma save_ok_fields:
  assumes "fst (save e body img w) = Inr b"
  shows "title b = trim (f_title body) \<and> title b \<noteq> [] \<and> length (title b) \<le> 200"
    and "author b = trim (f_author body) \<and> author b \<noteq> [] \<and> length (author b) \<le> 100"
    and "description b = trim (f_description body) \<and> description b \<noteq> []
         \<and> length (description b) \<le> 1000"
  using assms
  by (auto simp: save_def schema_path_def Let_def split: prod.splits if_splits)

subsection \<open>The examples, evaluated\<close>


lemma trim_examples:
  "trim ''Dubliners'' = ''Dubliners''"
  "trim ''James Joyce'' = ''James Joyce''"
  "trim ''Fifteen stories of Dublin life'' = ''Fifteen stories of Dublin life''"
  "trim ''abc       '' = ''abc''"
  "trim ''abc'' = ''abc''"
  "trim [] = []"
  by (simp_all add: trim_def is_space_def)

lemma validation_examples:
  "addBookValidation dubliners =
     ([], \<lparr> f_title = ''Dubliners'', f_author = ''James Joyce'',
            f_description = ''Fifteen stories of Dublin life'' \<rparr>)"
  "addBookValidation (with_file dubliners u) = addBookValidation dubliners"
  "addBookValidation padded_description =
     ([], \<lparr> f_title = ''Dubliners'', f_author = ''James Joyce'', f_description = ''abc'' \<rparr>)"
  "fst (addBookValidation untitled) =
     [(''title'', ''Title is required''),
      (''title'', ''Title must be between 1 and 200 characters'')]"
  by (simp_all add: addBookValidation_def check_field_def dubliners_def with_file_def
      padded_description_def untitled_def trim_examples)

lemma save_examples:
  "save clock \<lparr> f_title = ''Dubliners'', f_author = ''James Joyce'', f_description = ''abc'' \<rparr>
     img w =
     (if \<not> dbOnline w then (Inl (DbError ''database unavailable''), emit DbInsert w)
      else
        (Inr \<lparr> book_id = ''64f5a1b2c3d4e5f6a7b8c9d5'', title = ''Dubliners'',
           author = ''James Joyce'', description = ''abc'', image = img,
           createdAt = 1700000000000, updatedAt = 1700000000000 \<rparr>,
         (emit DbInsert w)\<lparr>docs := docs w @
           [\<lparr> book_id = ''64f5a1b2c3d4e5f6a7b8c9d5'', title = ''Dubliners'',
              author = ''James Joyce'', description = ''abc'', image = img,
              createdAt = 1700000000000, updatedAt = 1700000000000 \<rparr>]\<rparr>))"
  "fst (save clock \<lparr> f_title = ''Dubliners'', f_author = ''James Joyce'',
          f_description = ''Fifteen stories of Dublin life'' \<rparr> img w) =
     (if \<not> dbOnline w then Inl (DbError ''database unavailable'')
      else
        Inr \<lparr> book_id = ''64f5a1b2c3d4e5f6a7b8c9d5'', title = ''Dubliners'',
          author = ''James Joyce'', description = ''Fifteen stories of Dublin life'',
          image = img, createdAt = 1700000000000, updatedAt = 1700000000000 \<rparr>)"
  by (simp_all add: save_def schema_path_def Let_def trim_examples clock_def)

text \<open>A file of the image field whose content type does not start with \<open>image/\<close> is
  refused, whatever its size, and the world is as before.\<close>

lemma non_image_rejected:
  assumes "req_file r = Some u" and "fieldname u = ''image''"
    and "\<not> startsWith (mimetype u) ''image/''"
  shows "createBook e r w = (SomethingWentWrong ''Only image files are allowed!'', w)"
  using assms by (simp add: createBook_def upload_single_eq)

text \<open>A chain accepts a value by its length as it was sent, before trimming.\<close>

lemma check_field_accepts:
  "fst (check_field f m1 lo hi m2 v) = []
   \<longleftrightarrow> (\<exists>s. v = Some s \<and> s \<noteq> [] \<and> lo \<le> length s \<and> length s \<le> hi)"
  by (cases v) (auto simp: check_field_def)

subsection \<open>Claims about the create request\<close>

text \<open>
  Claim C4 fails on the code: the length is checked before the value is trimmed, and the
  schema has no minimum. A description of three letters and seven spaces passes the
  validation, and the book is stored with a description of three characters.
\<close>

theorem padded_description_stored_short:
  "req_description padded_description = Some ''abc       ''
   \<and> fst (addBookValidation padded_description) = []
   \<and> fst (createBook clock padded_description shelf) =
       BookAdded \<lparr> book_id = ''64f5a1b2c3d4e5f6a7b8c9d5'', title = ''Dubliners'',
         author = ''James Joyce'', description = ''abc'', image = None,
         createdAt = 1700000000000, updatedAt = 1700000000000 \<rparr>
   \<and> length ''abc'' < (10 :: nat)"
proof -
  have f: "req_file padded_description = None"
      "req_description padded_description = Some ''abc       ''"
    by (simp_all add: padded_description_def dubliners_def)
  have up: "upload_single clock (req_file padded_description) shelf = (Inr None, shelf)"
    by (simp add: f upload_single_none)
  have "dbOnline shelf"
    by (simp add: shelf_def)
  then have "fst (createBook clock padded_description shelf) =
       BookAdded \<lparr> book_id = ''64f5a1b2c3d4e5f6a7b8c9d5'', title = ''Dubliners'',
         author = ''James Joyce'', description = ''abc'', image = None,
         createdAt = 1700000000000, updatedAt = 1700000000000 \<rparr>"
    by (simp add: createBook_stored [OF up] validation_examples addBook_eq save_examples)
  with f show ?thesis
    by (simp add: validation_examples)
qed

text \<open>What does hold of every stored book: the three strings are trimmed and not empty,
  and none is longer than its maximum.\<close>

lemma created_book_lengths:
  assumes "fst (createBook e r w) = BookAdded b"
  shows "1 \<le> length (title b) \<and> length (title b) \<le> 200
       \<and> 1 \<le> length (author b) \<and> length (author b) \<le> 100
       \<and> 1 \<le> length (description b) \<and> length (description b) \<le> 1000"
proof -
  obtain up w1 where up: "upload_single e (req_file r) w = (up, w1)"
    by (cases "upload_single e (req_file r) w")
  show ?thesis
  proof (cases up)
    case (Inl err)
    with up assms show ?thesis
      by (cases err) (auto simp: createBook_rejected split: if_splits)
  next
    case (Inr stored)
    let ?img = "case stored of None \<Rightarrow> None | Some f \<Rightarrow> Some (''/uploads/'' @ filename f)"
    let ?body = "snd (addBookValidation r)"
    from up Inr assms have "fst (addBook e ?body stored w1) = BookAdded b"
      by (auto simp: createBook_stored split: if_splits)
    then have "fst (save e ?body ?img w1) = Inr b"
      by (auto simp: addBook_eq split: prod.splits sum.splits save_error.splits)
    from save_ok_fields [OF this] show ?thesis
      by (auto simp: Suc_le_eq)
  qed
qed





text \<open>
  Claim C8 fails on the code: a file that is not an image is refused before anything is
  written, and the world is left as it was, but the error of the filter is a plain error,
  which the global error handler answers with status 500, not 400.
\<close>

theorem non_image_upload_answers_500:
  "fileFilter pdf = Inl (PlainError ''Only image files are allowed!'')
   \<and> createBook clock (with_file dubliners pdf) shelf
     = (SomethingWentWrong ''Only image files are allowed!'', shelf)
   \<and> status (fst (createBook clock (with_file dubliners pdf) shelf)) = 500"
proof -
  have "createBook clock (with_file dubliners pdf) shelf
     = (SomethingWentWrong ''Only image files are allowed!'', shelf)"
    by (rule non_image_rejected [where u = pdf]) (simp_all add: with_file_def pdf_def)
  moreover have "fileFilter pdf = Inl (PlainError ''Only image files are allowed!'')"
    by (simp add: fileFilter_def pdf_def)
  ultimately show ?thesis
    by simp
qed

text \<open>
  Claim C9, as amended. For a file of the image field that the filter accepts (its content
  type starts with \<open>image/\<close>): when it is longer than \<open>5 * 1024 * 1024\<close> bytes the request
  is answered with \<open>File too large\<close> (status 400), nothing is asked of the database and
  no document is added; when it is shorter, the request is not answered with
  \<open>File too large\<close>; when it has exactly that many bytes, the request is answered with
  \<open>File too large\<close> if and only if the installed multer refuses a file at the limit.
\<close>

theorem oversize_image_rejected:
  assumes "req_file r = Some u" and "fieldname u = ''image''"
    and "startsWith (mimetype u) ''image/''"
  shows "(5 * 1024 * 1024 < size_bytes u \<longrightarrow>
            fst (createBook e r w) = FileTooLarge
            \<and> status (fst (createBook e r w)) = 400
            \<and> docs (snd (createBook e r w)) = docs w
            \<and> trace (snd (createBook e r w))
              = trace w @ [FileWrite (storage_path e u), FileUnlink (storage_path e u)])
       \<and> (size_bytes u < 5 * 1024 * 1024 \<longrightarrow> fst (createBook e r w) \<noteq> FileTooLarge)
       \<and> (size_bytes u = 5 * 1024 * 1024 \<longrightarrow>
            (fst (createBook e r w) = FileTooLarge \<longleftrightarrow> refuses_at_limit e))"
proof -
  let ?f = "\<lparr> path = storage_path e u, filename = storage_filename e u \<rparr>"
  let ?w1 = "(emit (FileWrite (storage_path e u)) w)\<lparr>files := files w @ [storage_path e u]\<rparr>"
  have refused: "createBook e r w =
      (FileTooLarge, emit (FileUnlink (storage_path e u)) (emit (FileWrite (storage_path e u)) w))"
    if "fileSize < size_bytes u \<or> (refuses_at_limit e \<and> size_bytes u = fileSize)"
    using that assms by (auto simp: createBook_def upload_single_eq)
  have stored: "fst (createBook e r w) \<noteq> FileTooLarge"
    if "\<not> (fileSize < size_bytes u \<or> (refuses_at_limit e \<and> size_bytes u = fileSize))"
  proof -
    from that assms have up: "upload_single e (req_file r) w = (Inr (Some ?f), ?w1)"
      by (simp add: upload_single_eq)
    show ?thesis
      unfolding createBook_stored [OF up] addBook_eq
      by (simp split: prod.splits sum.splits save_error.splits)
  qed
  have n: "fileSize = 5 * 1024 * 1024"
    by (simp add: fileSize_def)
  have 1: "fst (createBook e r w) = FileTooLarge
            \<and> status (fst (createBook e r w)) = 400
            \<and> docs (snd (createBook e r w)) = docs w
            \<and> trace (snd (createBook e r w))
              = trace w @ [FileWrite (storage_path e u), FileUnlink (storage_path e u)]"
    if "5 * 1024 * 1024 < size_bytes u"
    using refused that unfolding n by simp
  have 2: "fst (createBook e r w) \<noteq> FileTooLarge" if "size_bytes u < 5 * 1024 * 1024"
    using stored that unfolding n by simp
  have 3: "fst (createBook e r w) = FileTooLarge \<longleftrightarrow> refuses_at_limit e"
    if "size_bytes u = 5 * 1024 * 1024"
  proof (cases "refuses_at_limit e")
    case True
    with refused that show ?thesis unfolding n by simp
  next
    case False
    with stored that show ?thesis unfolding n by simp
  qed
  from 1 2 3 show ?thesis
    by blast
qed

text \<open>A cover of one byte more than the limit is refused and a small cover is not; a cover
  of exactly the limit is refused by a multer that refuses at the limit and stored by one
  that does not.\<close>

theorem oversize_image_rejected_witness:
  "req_file (with_file dubliners big_cover) = Some big_cover
   \<and> fieldname big_cover = ''image'' \<and> startsWith (mimetype big_cover) ''image/''
   \<and> 5 * 1024 * 1024 < size_bytes big_cover
   \<and> fst (createBook clock (with_file dubliners big_cover) shelf) = FileTooLarge
   \<and> docs (snd (createBook clock (with_file dubliners big_cover) shelf)) = docs shelf
   \<and> req_file (with_file dubliners cover) = Some cover
   \<and> fieldname cover = ''image'' \<and> startsWith (mimetype cover) ''image/''
   \<and> size_bytes cover < 5 * 1024 * 1024
   \<and> fst (createBook clock (with_file dubliners cover) shelf) \<noteq> FileTooLarge
   \<and> req_file (with_file dubliners full_cover) = Some full_cover
   \<and> fieldname full_cover = ''image'' \<and> startsWith (mimetype full_cover) ''image/''
   \<and> size_bytes full_cover = 5 * 1024 * 1024
   \<and> refuses_at_limit clock \<and> \<not> refuses_at_limit clock_lenient
   \<and> fst (createBook clock (with_file dubliners full_cover) shelf) = FileTooLarge
   \<and> fst (createBook clock_lenient (with_file dubliners full_cover) shelf) \<noteq> FileTooLarge"
proof -
  have a: "req_file (with_file dubliners big_cover) = Some big_cover"
      "fieldname big_cover = ''image''" "startsWith (mimetype big_cover) ''image/''"
    by (simp_all add: with_file_def big_cover_def cover_def)
  have b: "5 * 1024 * 1024 < size_bytes big_cover"
    by (simp add: big_cover_def cover_def)
  have c: "req_file (with_file dubliners cover) = Some cover"
      "fieldname cover = ''image''" "startsWith (mimetype cover) ''image/''"
    by (simp_all add: with_file_def cover_def)
  have d: "size_bytes cover < 5 * 1024 * 1024"
    by (simp add: cover_def)
  have e: "req_file (with_file dubliners full_cover) = Some full_cover"
      "fieldname full_cover = ''image''" "startsWith (mimetype full_cover) ''image/''"
    by (simp_all add: with_file_def full_cover_def cover_def)
  have f: "size_bytes full_cover = 5 * 1024 * 1024"
    by (simp add: full_cover_def cover_def)
  have g: "refuses_at_limit clock" "\<not> refuses_at_limit clock_lenient"
    by (simp_all add: clock_def clock_lenient_def)
  from oversize_image_rejected [OF a, of clock shelf] b
  have 1: "fst (createBook clock (with_file dubliners big_cover) shelf) = FileTooLarge"
    and 2: "docs (snd (createBook clock (with_file dubliners big_cover) shelf)) = docs shelf"
    by blast+
  from oversize_image_rejected [OF c, of clock shelf] d
  have 3: "fst (createBook clock (with_file dubliners cover) shelf) \<noteq> FileTooLarge"
    by blast
  from oversize_image_rejected [OF e, of clock shelf] f g(1)
  have 4: "fst (createBook clock (with_file dubliners full_cover) shelf) = FileTooLarge"
    by blast
  from oversize_image_rejected [OF e, of clock_lenient shelf] f g(2)
  have 5: "fst (createBook clock_lenient (with_file dubliners full_cover) shelf) \<noteq> FileTooLarge"
    by blast
  from a b c d e f g 1 2 3 4 5 show ?thesis
    by (intro conjI)
qed

text \<open>
  Claim C9 as it is written fails for a large file that is not an image: the filter
  refuses it first, and the answer is the error of the filter with status 500, not
  \<open>File too large\<close>.
\<close>

theorem oversize_non_image_answers_500:
  "5 * 1024 * 1024 < size_bytes big_pdf
   \<and> fst (createBook clock (with_file dubliners big_pdf) shelf)
     = SomethingWentWrong ''Only image files are allowed!''
   \<and> fst (createBook clock (with_file dubliners big_pdf) shelf) \<noteq> FileTooLarge
   \<and> status (fst (createBook clock (with_file dubliners big_pdf) shelf)) = 500"
proof -
  have "createBook clock (with_file dubliners big_pdf) shelf
     = (SomethingWentWrong ''Only image files are allowed!'', shelf)"
    by (rule non_image_rejected [where u = big_pdf])
      (simp_all add: with_file_def big_pdf_def pdf_def)
  moreover have "5 * 1024 * 1024 < size_bytes big_pdf"
    by (simp add: big_pdf_def pdf_def)
  ultimately show ?thesis
    by simp
qed

end
